theory Spec2Isabelle
  imports Complex_Main "HOL-Library.Signed_Division"
begin

section \<open>Terrain correction of SAR lines: the line functions of deskew\_dem.c\<close>

text \<open>
  The embedding follows \<^verbatim>\<open>trunk/src/libasf_sar/deskew_dem.c\<close>. C \<^verbatim>\<open>float\<close> and
  \<^verbatim>\<open>double\<close> values are modelled as \<^typ>\<open>real\<close>: comparisons, truncation and the shape
  of every formula are those of the source, rounding is not modelled (and where C yields
  an infinity or a NaN, for a division by zero or the root of a negative number, HOL yields
  a number; no property below rests on such a value). C \<^verbatim>\<open>int\<close> is
  \<^typ>\<open>int\<close> (no line is long enough for an index to wrap). An array is a list whose length
  is the allocated size; every read and write is checked, and an access outside the
  allocation is the result \<open>Inl OutOfBounds\<close>.
\<close>

subsection \<open>Errors, checked array access\<close>

text \<open>
  Modelled from the spec: \<^verbatim>\<open>asfPrintError\<close> is declared outside this file; it reports a
  message and terminates the process. A call of it is the result \<open>Inl\<close> of the function:
  \<open>UntestedFormula\<close> for the message of \<^verbatim>\<open>bad_rtc\<close>, \<open>BadFormula\<close> for the message of the
  default case of \<^verbatim>\<open>radio_compensate\<close>.
\<close>

datatype error = OutOfBounds | UntestedFormula int | BadFormula int

definition ebind :: "error + 'a \<Rightarrow> ('a \<Rightarrow> error + 'b) \<Rightarrow> error + 'b" where
  "ebind m f = (case m of Inl e \<Rightarrow> Inl e | Inr v \<Rightarrow> f v)"

definition rd :: "'a list \<Rightarrow> int \<Rightarrow> error + 'a" where
  "rd xs i = (if 0 \<le> i \<and> i < int (length xs) then Inr (xs ! nat i) else Inl OutOfBounds)"

definition wr :: "'a list \<Rightarrow> int \<Rightarrow> 'a \<Rightarrow> error + 'a list" where
  "wr xs i v = (if 0 \<le> i \<and> i < int (length xs) then Inr (xs[nat i := v]) else Inl OutOfBounds)"

text \<open>The conversion \<^verbatim>\<open>(int)x\<close> of a floating value truncates towards zero.\<close>

definition c_int :: "real \<Rightarrow> int" where
  "c_int x = (if 0 \<le> x then \<lfloor>x\<rfloor> else \<lceil>x\<rceil>)"

subsection \<open>Constants of the headers, the geometry model\<close>

text \<open>
  The macros \<^verbatim>\<open>BAD_DEM_HEIGHT\<close>, \<^verbatim>\<open>NO_DEM_DATA\<close> and \<^verbatim>\<open>MASK_*\<close> are defined in headers
  outside the source at hand, so their values are parameters of the model.
\<close>

record sar_consts =
  BAD_DEM_HEIGHT :: real
  NO_DEM_DATA :: real
  MASK_NORMAL :: real
  MASK_USER_MASK :: real
  MASK_LAYOVER :: real
  MASK_SHADOW :: real
  MASK_INVALID_DATA :: real

definition badDEMht :: "sar_consts \<Rightarrow> real" where
  "badDEMht c = BAD_DEM_HEIGHT c"

definition maxBreakLen :: int where
  "maxBreakLen = 5"

text \<open>
  The metadata accessors \<^verbatim>\<open>meta_get_sat_height\<close>, \<^verbatim>\<open>meta_get_slant\<close>,
  \<^verbatim>\<open>meta_get_earth_radius\<close> and \<^verbatim>\<open>meta_incid\<close> are library functions of (line, sample);
  the metadata is the record of these four functions.
\<close>

record meta_parameters =
  meta_get_sat_height :: "int \<Rightarrow> int \<Rightarrow> real"
  meta_get_slant :: "int \<Rightarrow> int \<Rightarrow> real"
  meta_get_earth_radius :: "int \<Rightarrow> int \<Rightarrow> real"
  meta_incid :: "int \<Rightarrow> int \<Rightarrow> real"

record deskew_dem_data =
  numLines :: int
  numSamples :: int
  grPixelSize :: real
  slantGR :: "real list"
  heightShiftGR :: "real list"
  heightShiftSR :: "real list"
  groundSR :: "real list"
  slantRangeSqr :: "real list"
  slantRange :: "real list"
  incidAng :: "real list"
  sinIncidAng :: "real list"
  cosIncidAng :: "real list"
  minPhi :: real
  maxPhi :: real
  phiMul :: real
  meta :: meta_parameters

definition eq :: "real \<Rightarrow> real \<Rightarrow> real \<Rightarrow> bool" where
  "eq a b tol = (\<bar>a - b\<bar> < tol)"

subsection \<open>Point lookups: SR2GR and dem\_gr2sr\<close>

text \<open>
  The first statement of either function reads the height-shift table at the truncated
  position it was given; the clamp comes after that read.
\<close>

definition SR2GR :: "deskew_dem_data \<Rightarrow> real \<Rightarrow> real \<Rightarrow> error + real" where
  "SR2GR d srX height =
     ebind (rd (heightShiftSR d) (c_int srX)) (\<lambda>hs.
       let srXSeaLevel = srX - height * hs;
           srXSeaLevel = (if srXSeaLevel < 0 then 0 else srXSeaLevel);
           srXSeaLevel = (if srXSeaLevel \<ge> real_of_int (numSamples d - 1)
                          then real_of_int (numSamples d - 2) else srXSeaLevel);
           ix = c_int srXSeaLevel;
           dx = srXSeaLevel - real_of_int ix
       in ebind (rd (groundSR d) ix) (\<lambda>g0.
          ebind (rd (groundSR d) (ix + 1)) (\<lambda>g1.
            Inr (g0 + dx * (g1 - g0)))))"

definition dem_gr2sr :: "deskew_dem_data \<Rightarrow> real \<Rightarrow> real \<Rightarrow> error + real" where
  "dem_gr2sr d grX height =
     ebind (rd (heightShiftGR d) (c_int grX)) (\<lambda>hs.
       let grXSeaLevel = grX - height * hs;
           grXSeaLevel = (if grXSeaLevel < 0 then 0 else grXSeaLevel);
           grXSeaLevel = (if grXSeaLevel \<ge> real_of_int (numSamples d - 1)
                          then real_of_int (numSamples d - 2) else grXSeaLevel);
           ix = c_int grXSeaLevel;
           dx = grXSeaLevel - real_of_int ix
       in ebind (rd (slantGR d) ix) (\<lambda>s0.
          ebind (rd (slantGR d) (ix + 1)) (\<lambda>s1.
            Inr (s0 + dx * (s1 - s0)))))"

subsection \<open>Line conversion: dem\_sr2gr\<close>

text \<open>The fill loop of the \<^verbatim>\<open>NO_DEM_DATA\<close> case: \<^verbatim>\<open>for (xInterp=lastOutX+1; xInterp<=outX; xInterp++)\<close>.\<close>

function fill_no_data :: "sar_consts \<Rightarrow> int \<Rightarrow> int \<Rightarrow> real list \<Rightarrow> error + real list" where
  "fill_no_data c xInterp outX outBuf =
     (if xInterp \<le> outX
      then ebind (wr outBuf xInterp (NO_DEM_DATA c)) (\<lambda>ob. fill_no_data c (xInterp + 1) outX ob)
      else Inr outBuf)"
  by pat_completeness auto
termination
  by (relation "measure (\<lambda>(c, xInterp, outX, outBuf). nat (outX + 1 - xInterp))") auto

text \<open>The interpolation loop: it writes \<open>currv\<close> (the variable curr of the source) and then adds \<open>delt\<close> to it.\<close>

function interp_loop :: "int \<Rightarrow> int \<Rightarrow> real \<Rightarrow> real \<Rightarrow> real list \<Rightarrow> error + real list" where
  "interp_loop xInterp outX currv delt outBuf =
     (if xInterp \<le> outX
      then ebind (wr outBuf xInterp currv) (\<lambda>ob. interp_loop (xInterp + 1) outX (currv + delt) delt ob)
      else Inr outBuf)"
  by pat_completeness auto
termination
  by (relation "measure (\<lambda>(xInterp, outX, currv, delt, outBuf). nat (outX + 1 - xInterp))") auto

record sr2gr_state =
  outBuf :: "real list"
  lastOutX :: int
  lastOutValue :: real

text \<open>
  One pass of the loop over \<open>inX\<close>. The division that gives \<open>delt\<close> is a real division: for
  \<open>outX = lastOutX\<close> the C quotient is infinite or not a number, the HOL quotient is 0, and
  in both the loop below it runs no iteration.
\<close>

definition dem_sr2gr_body ::
  "sar_consts \<Rightarrow> deskew_dem_data \<Rightarrow> real list \<Rightarrow> int \<Rightarrow> int \<Rightarrow> int \<Rightarrow> sr2gr_state
     \<Rightarrow> error + sr2gr_state" where
  "dem_sr2gr_body c d inBuf ns fill_holes inX s =
     ebind (rd inBuf inX) (\<lambda>height.
     ebind (SR2GR d (real_of_int inX) height) (\<lambda>g.
       let outX = c_int g in
       if height > badDEMht c \<and> outX \<ge> 0 \<and> outX < ns
       then
         ebind
           (if eq (lastOutValue s) (NO_DEM_DATA c) 0.0001 \<or> eq height (NO_DEM_DATA c) 0.0001
            then fill_no_data c (lastOutX s + 1) outX (outBuf s)
            else if lastOutValue s \<noteq> badDEMht c
                    \<and> (fill_holes \<noteq> 0 \<or> outX - lastOutX s < maxBreakLen)
            then
              (let currv = lastOutValue s;
                   delt = (height - lastOutValue s) / real_of_int (outX - lastOutX s);
                   currv = currv + delt
               in interp_loop (lastOutX s + 1) outX currv delt (outBuf s))
            else Inr (outBuf s))
           (\<lambda>ob. Inr \<lparr>outBuf = ob, lastOutX = outX, lastOutValue = height\<rparr>)
       else Inr s))"

function sr2gr_init :: "sar_consts \<Rightarrow> int \<Rightarrow> int \<Rightarrow> real list \<Rightarrow> error + real list" where
  "sr2gr_init c outX ns ob =
     (if outX < ns
      then ebind (wr ob outX (badDEMht c)) (\<lambda>ob'. sr2gr_init c (outX + 1) ns ob')
      else Inr ob)"
  by pat_completeness auto
termination
  by (relation "measure (\<lambda>(c, outX, ns, ob). nat (ns - outX))") auto

function sr2gr_loop ::
  "sar_consts \<Rightarrow> deskew_dem_data \<Rightarrow> real list \<Rightarrow> int \<Rightarrow> int \<Rightarrow> int \<Rightarrow> sr2gr_state
     \<Rightarrow> error + sr2gr_state" where
  "sr2gr_loop c d inBuf ns fill_holes inX s =
     (if inX < ns
      then ebind (dem_sr2gr_body c d inBuf ns fill_holes inX s)
             (\<lambda>s'. sr2gr_loop c d inBuf ns fill_holes (inX + 1) s')
      else Inr s)"
  by pat_completeness auto
termination
  by (relation "measure (\<lambda>(c, d, inBuf, ns, fill_holes, inX, s). nat (ns - inX))") auto

definition dem_sr2gr ::
  "sar_consts \<Rightarrow> deskew_dem_data \<Rightarrow> real list \<Rightarrow> real list \<Rightarrow> int \<Rightarrow> int \<Rightarrow> error + real list" where
  "dem_sr2gr c d inBuf ob ns fill_holes =
     ebind (sr2gr_init c 0 ns ob) (\<lambda>ob'.
     ebind (sr2gr_loop c d inBuf ns fill_holes 0
              \<lparr>outBuf = ob', lastOutX = - 1, lastOutValue = badDEMht c\<rparr>) (\<lambda>s.
       Inr (outBuf s)))"

subsection \<open>Geometric compensation: geo\_compensate\<close>

definition num_hits_required_for_layover :: int where
  "num_hits_required_for_layover = 2"

text \<open>
  The working state of one call. The pointer \<^verbatim>\<open>sr_hits\<close> is non-null exactly when
  \<^verbatim>\<open>mask\<close> is, so the test \<^verbatim>\<open>if (sr_hits)\<close> is the case \<open>mask = Some m\<close>; without a mask
  the hit table is the empty list. The counters \<^verbatim>\<open>n_layover\<close> and \<^verbatim>\<open>n_shadow\<close> are the
  file's static variables.
\<close>

record geo_state =
  out :: "real list"
  mask :: "real list option"
  sr_hits :: "int list"
  valid_data_yet :: int
  max_height :: real
  last_good_height :: real
  max_valid_srX :: real
  max_valid_srX_height :: real
  biggest_look :: real
  n_layover :: int
  n_shadow :: int

text \<open>Lines 287 to 294: the reset of the mask and of the hit table.\<close>

function hits_init :: "int \<Rightarrow> int \<Rightarrow> int \<Rightarrow> int list \<Rightarrow> error + int list" where
  "hits_init ns grX i hits =
     (if i < num_hits_required_for_layover
      then ebind (wr hits (i * ns + grX) (- 1)) (\<lambda>hits'. hits_init ns grX (i + 1) hits')
      else Inr hits)"
  by pat_completeness auto
termination
  by (relation "measure (\<lambda>(ns, grX, i, hits). nat (num_hits_required_for_layover - i))") auto

function geo_reset ::
  "sar_consts \<Rightarrow> int \<Rightarrow> int \<Rightarrow> real list \<times> int list \<Rightarrow> error + real list \<times> int list" where
  "geo_reset c ns grX (m, hits) =
     (if grX < ns
      then
        ebind (rd m grX) (\<lambda>v.
        ebind (if v \<noteq> MASK_USER_MASK c \<and> v \<noteq> MASK_INVALID_DATA c
               then wr m grX (MASK_NORMAL c) else Inr m) (\<lambda>m'.
        ebind (hits_init ns grX 0 hits) (\<lambda>hits'.
          geo_reset c ns (grX + 1) (m', hits'))))
      else Inr (m, hits))"
  by pat_completeness auto
termination
  by (relation "measure (\<lambda>(c, ns, grX, mh). nat (ns - grX))") auto

text \<open>
  Lines 338 to 347: the first free slot of slant-range pixel \<open>x\<close> takes \<open>grX\<close>; the result
  is the table and \<^verbatim>\<open>is_layover\<close>, which stays true when both slots were taken.
\<close>

function hit_loop :: "int \<Rightarrow> int \<Rightarrow> int \<Rightarrow> int \<Rightarrow> int list \<Rightarrow> error + int list \<times> bool" where
  "hit_loop ns x grX i hits =
     (if i < num_hits_required_for_layover
      then
        ebind (rd hits (i * ns + x)) (\<lambda>h.
          if h = - 1
          then ebind (wr hits (i * ns + x) grX) (\<lambda>hits'. Inr (hits', False))
          else hit_loop ns x grX (i + 1) hits)
      else Inr (hits, True))"
  by pat_completeness auto
termination
  by (relation "measure (\<lambda>(ns, x, grX, i, hits). nat (num_hits_required_for_layover - i))") auto

text \<open>Lines 350 to 355: the recorded origins of slant-range pixel \<open>x\<close>.\<close>

function mark_loop ::
  "sar_consts \<Rightarrow> int \<Rightarrow> int \<Rightarrow> int \<Rightarrow> int list \<Rightarrow> real list \<times> int \<Rightarrow> error + real list \<times> int" where
  "mark_loop c ns x i hits (m, nl) =
     (if i < num_hits_required_for_layover
      then
        ebind (rd hits (i * ns + x)) (\<lambda>h.
        ebind (rd m h) (\<lambda>v.
          if v = MASK_NORMAL c
          then ebind (wr m h (MASK_LAYOVER c)) (\<lambda>m'. mark_loop c ns x (i + 1) hits (m', nl + 1))
          else mark_loop c ns x (i + 1) hits (m, nl)))
      else Inr (m, nl))"
  by pat_completeness auto
termination
  by (relation "measure (\<lambda>(c, ns, x, i, hits, mn). nat (num_hits_required_for_layover - i))") auto

definition layover_step ::
  "sar_consts \<Rightarrow> int \<Rightarrow> int \<Rightarrow> int \<Rightarrow> int list \<times> real list \<times> int
     \<Rightarrow> error + int list \<times> real list \<times> int" where
  "layover_step c ns x grX s =
     (case s of (hits, m, nl) \<Rightarrow>
        ebind (hit_loop ns x grX 0 hits) (\<lambda>r. case r of (hits', is_layover) \<Rightarrow>
          if is_layover
          then
            ebind (mark_loop c ns x 0 hits' (m, nl)) (\<lambda>r'. case r' of (m', nl') \<Rightarrow>
            ebind (rd m' grX) (\<lambda>v.
              if v = MASK_NORMAL c
              then ebind (wr m' grX (MASK_LAYOVER c)) (\<lambda>m''. Inr (hits', m'', nl' + 1))
              else Inr (hits', m', nl')))
          else Inr (hits', m, nl)))"

text \<open>Lines 365 to 377: the look value of ground pixel \<open>grX\<close>.\<close>

definition cur_look :: "deskew_dem_data \<Rightarrow> real list \<Rightarrow> real \<Rightarrow> int \<Rightarrow> int \<Rightarrow> error + real" where
  "cur_look d grDEM sat_ht line grX =
     (let h = sat_ht;
          sr = meta_get_slant (meta d) line grX;
          er = meta_get_earth_radius (meta d) line grX;
          phi_cos_x2 = (h * h + er * er - sr * sr) / (h * er)
      in ebind (rd grDEM grX) (\<lambda>g.
           let er = er + g;
               sr = sqrt (h * h + er * er - h * er * phi_cos_x2)
           in Inr (- (sr * sr + h * h - er * er) / (2 * sr * h))))"

text \<open>Lines 379 to 389: the running maximum and the shadow mark.\<close>

definition shadow_step ::
  "sar_consts \<Rightarrow> int \<Rightarrow> real \<Rightarrow> real \<times> real list \<times> int \<Rightarrow> error + real \<times> real list \<times> int" where
  "shadow_step c grX look s =
     (case s of (biggest, m, nsh) \<Rightarrow>
        if look \<ge> biggest
        then Inr (look, m, nsh)
        else
          ebind (rd m grX) (\<lambda>v.
            if v = MASK_NORMAL c
            then ebind (wr m grX (MASK_SHADOW c)) (\<lambda>m'. Inr (biggest, m', nsh + 1))
            else Inr (biggest, m, nsh)))"

text \<open>Lines 318 to 327: the sample of the input line at the fractional position \<open>srX\<close>.\<close>

definition sample_in :: "real list \<Rightarrow> int \<Rightarrow> real \<Rightarrow> error + real" where
  "sample_in inl doInterp srX =
     (let x = \<lfloor>srX\<rfloor>; dx = srX - real_of_int x in
      if doInterp \<noteq> 0
      then ebind (rd inl x) (\<lambda>a. ebind (rd inl (x + 1)) (\<lambda>b. Inr ((1 - dx) * a + dx * b)))
      else if dx \<le> 0.5 then rd inl x else rd inl (x + 1))"

text \<open>Lines 335 to 390, run when there is a mask \<open>m\<close>.\<close>

definition geo_track ::
  "sar_consts \<Rightarrow> deskew_dem_data \<Rightarrow> real list \<Rightarrow> int \<Rightarrow> real \<Rightarrow> int \<Rightarrow> int \<Rightarrow> int \<Rightarrow> real list
     \<Rightarrow> geo_state \<Rightarrow> error + geo_state" where
  "geo_track c d grDEM ns sat_ht line x grX m st =
     ebind (layover_step c ns x grX (sr_hits st, m, n_layover st)) (\<lambda>r.
       case r of (hits, m1, nl) \<Rightarrow>
     ebind (cur_look d grDEM sat_ht line grX) (\<lambda>look.
     ebind (shadow_step c grX look (biggest_look st, m1, n_shadow st)) (\<lambda>r'.
       case r' of (big, m2, nsh) \<Rightarrow>
         Inr (st\<lparr>sr_hits := hits, mask := Some m2, n_layover := nl,
                 biggest_look := big, n_shadow := nsh\<rparr>))))"

text \<open>
  Lines 318 to 390: the pixel has a good height and its slant-range position \<open>srX\<close> is
  inside \<open>[1, ns - 1)\<close>.
\<close>

definition geo_in_swath ::
  "sar_consts \<Rightarrow> deskew_dem_data \<Rightarrow> real list \<Rightarrow> real list \<Rightarrow> int \<Rightarrow> int \<Rightarrow> real \<Rightarrow> int \<Rightarrow> int
     \<Rightarrow> real \<Rightarrow> real \<Rightarrow> geo_state \<Rightarrow> error + geo_state" where
  "geo_in_swath c d grDEM inl ns doInterp sat_ht line grX height srX st =
     ebind (sample_in inl doInterp srX) (\<lambda>v.
     ebind (wr (out st) grX v) (\<lambda>ob.
       let st = st\<lparr>out := ob, valid_data_yet := 1\<rparr>;
           st = (if srX > max_valid_srX st
                 then st\<lparr>max_valid_srX := srX, max_valid_srX_height := height\<rparr>
                 else st)
       in case mask st of
            None \<Rightarrow> Inr st
          | Some m \<Rightarrow> geo_track c d grDEM ns sat_ht line \<lfloor>srX\<rfloor> grX m st))"

text \<open>Lines 312 to 395: the pixel has a good height.\<close>

definition geo_good ::
  "sar_consts \<Rightarrow> deskew_dem_data \<Rightarrow> real list \<Rightarrow> real list \<Rightarrow> int \<Rightarrow> int \<Rightarrow> real \<Rightarrow> int \<Rightarrow> int
     \<Rightarrow> real \<Rightarrow> geo_state \<Rightarrow> error + geo_state" where
  "geo_good c d grDEM inl ns doInterp sat_ht line grX height st =
     ebind (dem_gr2sr d (real_of_int grX) height) (\<lambda>srX.
       let st = st\<lparr>max_height := (if height > max_height st then height else max_height st),
                   last_good_height := height\<rparr>
       in
       if srX \<ge> 1 \<and> srX < real_of_int (ns - 1)
       then geo_in_swath c d grDEM inl ns doInterp sat_ht line grX height srX st
       else ebind (wr (out st) grX 0) (\<lambda>ob. Inr (st\<lparr>out := ob\<rparr>)))"

text \<open>Lines 411 to 425: the pixel has a bad height; the last good height stands in.\<close>

definition geo_bad ::
  "deskew_dem_data \<Rightarrow> real list \<Rightarrow> int \<Rightarrow> int \<Rightarrow> geo_state \<Rightarrow> error + geo_state" where
  "geo_bad d inl ns grX st =
     ebind (dem_gr2sr d (real_of_int grX) (last_good_height st)) (\<lambda>srX.
       if valid_data_yet st \<noteq> 0 \<and> srX \<ge> 0 \<and> srX < real_of_int (ns - 1)
       then
         ebind (rd inl (c_int (srX + 0.5))) (\<lambda>v.
         ebind (wr (out st) grX v) (\<lambda>ob.
           let st = st\<lparr>out := ob\<rparr> in
           if v \<noteq> 0
           then (if srX > max_valid_srX st
                 then Inr (st\<lparr>max_valid_srX := srX,
                               max_valid_srX_height := last_good_height st\<rparr>)
                 else Inr st)
           else Inr st))
       else ebind (wr (out st) grX 0) (\<lambda>ob. Inr (st\<lparr>out := ob\<rparr>)))"

text \<open>Lines 307 to 426: one pass of the sweep over the ground-range pixels.\<close>

definition geo_body ::
  "sar_consts \<Rightarrow> deskew_dem_data \<Rightarrow> real list \<Rightarrow> real list \<Rightarrow> int \<Rightarrow> int \<Rightarrow> real \<Rightarrow> int \<Rightarrow> int
     \<Rightarrow> geo_state \<Rightarrow> error + geo_state" where
  "geo_body c d grDEM inl ns doInterp sat_ht line grX st =
     ebind (rd grDEM grX) (\<lambda>h0.
       let height = (if h0 < - 900 then badDEMht c else h0) in
       if height \<noteq> badDEMht c
       then geo_good c d grDEM inl ns doInterp sat_ht line grX height st
       else geo_bad d inl ns grX st)"

function geo_sweep ::
  "sar_consts \<Rightarrow> deskew_dem_data \<Rightarrow> real list \<Rightarrow> real list \<Rightarrow> int \<Rightarrow> int \<Rightarrow> real \<Rightarrow> int \<Rightarrow> int
     \<Rightarrow> geo_state \<Rightarrow> error + geo_state" where
  "geo_sweep c d grDEM inl ns doInterp sat_ht line grX st =
     (if grX < ns
      then ebind (geo_body c d grDEM inl ns doInterp sat_ht line grX st)
             (\<lambda>st'. geo_sweep c d grDEM inl ns doInterp sat_ht line (grX + 1) st')
      else Inr st)"
  by pat_completeness auto
termination
  by (relation "measure (\<lambda>(c, d, grDEM, inl, ns, doInterp, sat_ht, line, grX, st). nat (ns - grX))")
    auto

text \<open>
  Lines 430 to 443: the pass that closes holes of one pixel, started at \<open>grX = 2\<close>. The
  operator \<^verbatim>\<open>&&\<close> reads its right operand only when the left one holds.
\<close>

definition both_sides :: "real list \<Rightarrow> int \<Rightarrow> real \<Rightarrow> error + bool" where
  "both_sides m grX v =
     ebind (rd m (grX - 1)) (\<lambda>l.
       if l = v then ebind (rd m (grX + 1)) (\<lambda>r. Inr (r = v)) else Inr False)"

function close_holes ::
  "sar_consts \<Rightarrow> int \<Rightarrow> int \<Rightarrow> real list \<times> int \<times> int \<Rightarrow> error + real list \<times> int \<times> int" where
  "close_holes c ns grX (m, nl, nsh) =
     (if grX < ns - 2
      then
        ebind (rd m grX) (\<lambda>v.
          if v = MASK_NORMAL c
          then
            ebind (both_sides m grX (MASK_LAYOVER c)) (\<lambda>lay.
              if lay
              then ebind (wr m grX (MASK_LAYOVER c))
                     (\<lambda>m'. close_holes c ns (grX + 1) (m', nl + 1, nsh))
              else
                ebind (both_sides m grX (MASK_SHADOW c)) (\<lambda>sh.
                  if sh
                  then ebind (wr m grX (MASK_SHADOW c))
                         (\<lambda>m'. close_holes c ns (grX + 1) (m', nl, nsh + 1))
                  else close_holes c ns (grX + 1) (m, nl, nsh)))
          else close_holes c ns (grX + 1) (m, nl, nsh))
      else Inr (m, nl, nsh))"
  by pat_completeness auto
termination
  by (relation "measure (\<lambda>(c, ns, grX, s). nat (ns - 2 - grX))") auto

text \<open>Lines 450 to 473: the right-to-left pass that finds the least slant-range position.\<close>

record edge_state =
  e_out :: "real list"
  e_last_good_height :: real
  min_valid_srX :: real
  min_valid_srX_height :: real

definition edge_body ::
  "sar_consts \<Rightarrow> deskew_dem_data \<Rightarrow> real list \<Rightarrow> real list \<Rightarrow> int \<Rightarrow> edge_state \<Rightarrow> error + edge_state" where
  "edge_body c d grDEM inl grX e =
     ebind (rd grDEM grX) (\<lambda>height.
       if height > - 900 \<and> height \<noteq> badDEMht c
       then
         (let e = e\<lparr>e_last_good_height := height\<rparr> in
          ebind (dem_gr2sr d (real_of_int grX) height) (\<lambda>srX.
            if srX \<ge> 0 \<and> srX < min_valid_srX e
            then Inr (e\<lparr>min_valid_srX := srX, min_valid_srX_height := height\<rparr>)
            else Inr e))
       else
         ebind (dem_gr2sr d (real_of_int grX) (e_last_good_height e)) (\<lambda>srX.
           if srX \<ge> 0 \<and> srX < min_valid_srX e
           then
             (let e = e\<lparr>min_valid_srX := srX, min_valid_srX_height := e_last_good_height e\<rparr> in
              ebind (rd (e_out e) grX) (\<lambda>v.
                if v = 0
                then ebind (rd inl (c_int (srX + 0.5))) (\<lambda>w.
                     ebind (wr (e_out e) grX w) (\<lambda>ob. Inr (e\<lparr>e_out := ob\<rparr>)))
                else Inr e))
           else Inr e))"

function geo_edge ::
  "sar_consts \<Rightarrow> deskew_dem_data \<Rightarrow> real list \<Rightarrow> real list \<Rightarrow> int \<Rightarrow> edge_state \<Rightarrow> error + edge_state" where
  "geo_edge c d grDEM inl grX e =
     (if grX \<ge> 0
      then ebind (edge_body c d grDEM inl grX e) (\<lambda>e'. geo_edge c d grDEM inl (grX - 1) e')
      else Inr e)"
  by pat_completeness auto
termination
  by (relation "measure (\<lambda>(c, d, grDEM, inl, grX, e). nat (grX + 1))") auto

text \<open>Lines 481 to 486: the marks of invalid data from the two edges outward.\<close>

function mark_right :: "sar_consts \<Rightarrow> int \<Rightarrow> int \<Rightarrow> real list \<Rightarrow> error + real list" where
  "mark_right c ns i m =
     (if i < ns
      then ebind (wr m i (MASK_INVALID_DATA c)) (\<lambda>m'. mark_right c ns (i + 1) m')
      else Inr m)"
  by pat_completeness auto
termination
  by (relation "measure (\<lambda>(c, ns, i, m). nat (ns - i))") auto

function mark_left :: "sar_consts \<Rightarrow> real list \<Rightarrow> int \<Rightarrow> real list \<Rightarrow> error + real list" where
  "mark_left c ol i m =
     (if i \<ge> 0
      then
        ebind (rd ol i) (\<lambda>v.
          if v = 0
          then ebind (wr m i (MASK_INVALID_DATA c)) (\<lambda>m'. mark_left c ol (i - 1) m')
          else mark_left c ol (i - 1) m)
      else Inr m)"
  by pat_completeness auto
termination
  by (relation "measure (\<lambda>(c, ol, i, m). nat (i + 1))") auto

definition geo_invalid ::
  "sar_consts \<Rightarrow> deskew_dem_data \<Rightarrow> int \<Rightarrow> geo_state \<Rightarrow> edge_state \<Rightarrow> real list
     \<Rightarrow> error + real list" where
  "geo_invalid c d ns st e m =
     ebind (SR2GR d (max_valid_srX st) (max_valid_srX_height st)) (\<lambda>a.
     ebind (SR2GR d (min_valid_srX e) (min_valid_srX_height e)) (\<lambda>b.
       let max_valid_grX = \<lfloor>a\<rfloor>; min_valid_grX = \<lceil>b\<rceil> in
       ebind (if max_valid_grX < ns - 1 \<and> max_valid_grX \<ge> 0
              then mark_right c ns max_valid_grX m else Inr m) (\<lambda>m1.
         if min_valid_grX < ns - 1 \<and> min_valid_grX \<ge> 0
         then mark_left c (e_out e) min_valid_grX m1 else Inr m1)))"

text \<open>
  The function up to line 443: the reset, the sweep and the pass that closes holes. The
  block that \<^verbatim>\<open>MALLOC\<close> returns for \<^verbatim>\<open>sr_hits\<close> has \<open>2 * ns\<close> cells, all of them written
  by the reset before any is read.
\<close>

definition geo_classify ::
  "sar_consts \<Rightarrow> deskew_dem_data \<Rightarrow> real list \<Rightarrow> real list \<Rightarrow> real list \<Rightarrow> int \<Rightarrow> int
     \<Rightarrow> real list option \<Rightarrow> int \<Rightarrow> int \<times> int \<Rightarrow> error + geo_state" where
  "geo_classify c d grDEM inl ol ns doInterp mask0 line cnt =
     ebind (rd grDEM 0) (\<lambda>mh.
     ebind (case mask0 of
              None \<Rightarrow> Inr (None, [])
            | Some m \<Rightarrow>
                ebind (geo_reset c ns 0
                         (m, replicate (nat (ns * num_hits_required_for_layover)) 0))
                  (\<lambda>r. Inr (Some (fst r), snd r))) (\<lambda>mk.
       let sat_ht = meta_get_sat_height (meta d) line (numSamples d sdiv 2);
           st = \<lparr>out = ol, mask = fst mk, sr_hits = snd mk, valid_data_yet = 0,
                 max_height = mh, last_good_height = 0, max_valid_srX = - 1,
                 max_valid_srX_height = 0, biggest_look = - 2,
                 n_layover = fst cnt, n_shadow = snd cnt\<rparr>
       in
     ebind (geo_sweep c d grDEM inl ns doInterp sat_ht line 0 st) (\<lambda>st.
       case mask st of
         None \<Rightarrow> Inr st
       | Some m \<Rightarrow>
           ebind (close_holes c ns 2 (m, n_layover st, n_shadow st)) (\<lambda>r.
             case r of (m', nl, nsh) \<Rightarrow>
               Inr (st\<lparr>mask := Some m', n_layover := nl, n_shadow := nsh\<rparr>)))))"

text \<open>
  The whole function: the lines above, then the edge pass and the marks of invalid data.
  The result is the output line, the mask and the two counters.
\<close>

definition geo_compensate ::
  "sar_consts \<Rightarrow> deskew_dem_data \<Rightarrow> real list \<Rightarrow> real list \<Rightarrow> real list \<Rightarrow> int \<Rightarrow> int
     \<Rightarrow> real list option \<Rightarrow> int \<Rightarrow> int \<times> int
     \<Rightarrow> error + real list \<times> real list option \<times> int \<times> int" where
  "geo_compensate c d grDEM inl ol ns doInterp mask0 line cnt =
     ebind (geo_classify c d grDEM inl ol ns doInterp mask0 line cnt) (\<lambda>st.
     ebind (geo_edge c d grDEM inl (ns - 1)
              \<lparr>e_out = out st, e_last_good_height = 0,
               min_valid_srX = real_of_int (ns - 1), min_valid_srX_height = 0\<rparr>) (\<lambda>e.
     ebind (case mask st of
              None \<Rightarrow> Inr None
            | Some m \<Rightarrow> ebind (geo_invalid c d ns st e m) (\<lambda>m'. Inr (Some m'))) (\<lambda>mk'.
       Inr (e_out e, mk', n_layover st, n_shadow st))))"

subsection \<open>Radiometric compensation: radio\_compensate\<close>

definition bad_rtc :: "int \<Rightarrow> error + real list" where
  "bad_rtc form = Inl (UntestedFormula form)"

definition bad_dem_height :: "sar_consts \<Rightarrow> real \<Rightarrow> bool" where
  "bad_dem_height c height = (height < - 900 \<or> height = badDEMht c)"

text \<open>
  The \<^verbatim>\<open>switch (form)\<close> of lines 570 to 640, as the line with the new value of
  \<^verbatim>\<open>inout[x]\<close> or the fatal error. A legacy case stores its product and then calls
  \<^verbatim>\<open>bad_rtc\<close>, which ends the process.
\<close>

definition rtc_switch ::
  "deskew_dem_data \<Rightarrow> int \<Rightarrow> int \<Rightarrow> int \<Rightarrow> real list \<Rightarrow> real \<Rightarrow> real \<Rightarrow> real \<Rightarrow> real
     \<Rightarrow> error + real list" where
  "rtc_switch d line x form inout dx dy dz cosAng =
     (if form = 1 then
        (let gi = meta_incid (meta d) line x;
             li = arccos dz;
             tanphie = tan gi
         in ebind (rd inout x) (\<lambda>v.
            ebind (wr inout x (v * (tan li / tanphie))) (\<lambda>io. bad_rtc form)))
      else if form = 2 then
        (let gi = meta_incid (meta d) line x;
             sinphir = \<bar>gi + arcsin (dy / sqrt (dy * dy + 1))\<bar>;
             cosphia = 1 / sqrt (dx * dx + 1);
             tanphie = tan gi;
             cosphi = cosAng
         in ebind (rd inout x) (\<lambda>v.
            ebind (wr inout x (v * ((sinphir * cosphia) / (tanphie * cosphi))))
              (\<lambda>io. bad_rtc form)))
      else if form = 3 then
        (let gi = meta_incid (meta d) line x;
             sinphir = \<bar>gi + arcsin (dy / sqrt (dy * dy + 1))\<bar>;
             cosphia = 1 / sqrt (dx * dx + 1);
             tanphie = tan gi;
             cosphi = cosAng
         in ebind (rd inout x) (\<lambda>v.
            ebind (wr inout x (v * ((sinphir * cosphia) / (tanphie * sqrt cosphi))))
              (\<lambda>io. bad_rtc form)))
      else if form = 4 then
        (let gi = meta_incid (meta d) line x;
             sinphir = \<bar>gi + arcsin (dy / sqrt (dy * dy + 1))\<bar>;
             cosphia = 1 / sqrt (dx * dx + 1)
         in ebind (rd inout x) (\<lambda>v.
            ebind (wr inout x (v * ((sinphir * cosphia) / sin gi))) (\<lambda>io. bad_rtc form)))
      else if form = 5 then
        ebind (rd inout x) (\<lambda>v.
        ebind (rd (sinIncidAng d) x) (\<lambda>si.
          wr inout x (v * (sqrt (1 - cosAng * cosAng) / si))))
      else if form = 6 then
        ebind (rd inout x) (\<lambda>v.
        ebind (wr inout x (v * (1 - 0.33 * cosAng ^ 7))) (\<lambda>io. bad_rtc form))
      else Inl (BadFormula form))"

text \<open>Lines 551 to 553: the three tests are joined by \<^verbatim>\<open>||\<close>, read from left to right.\<close>

definition any_bad_height :: "sar_consts \<Rightarrow> real list \<Rightarrow> real list \<Rightarrow> int \<Rightarrow> error + bool" where
  "any_bad_height c grDEM grDEMprev x =
     ebind (rd grDEM x) (\<lambda>a.
       if bad_dem_height c a then Inr True
       else ebind (rd grDEMprev x) (\<lambda>b.
         if bad_dem_height c b then Inr True
         else ebind (rd grDEM (x - 1)) (\<lambda>a'. Inr (bad_dem_height c a'))))"

definition radio_body ::
  "sar_consts \<Rightarrow> deskew_dem_data \<Rightarrow> real list \<Rightarrow> real list \<Rightarrow> int \<Rightarrow> int \<Rightarrow> real list \<Rightarrow> int
     \<Rightarrow> real list \<Rightarrow> error + real list" where
  "radio_body c d grDEM grDEMprev line form maskl x inout =
     ebind (rd maskl x) (\<lambda>mv.
       if mv = MASK_USER_MASK c then Inr inout
       else
         ebind (any_bad_height c grDEM grDEMprev x) (\<lambda>bad.
           if bad then Inr inout
           else
             ebind (rd grDEM x) (\<lambda>grX.
             ebind (rd grDEM (x - 1)) (\<lambda>gl.
             ebind (rd grDEMprev x) (\<lambda>gp.
               let dx = (grX - gl) / grPixelSize d;
                   dy = (gp - grX) / grPixelSize d;
                   vecLen = sqrt (dx * dx + 1);
                   dz = 1 / vecLen
               in
             ebind (rd (sinIncidAng d) x) (\<lambda>si.
             ebind (rd (cosIncidAng d) x) (\<lambda>co.
               let cosAng = (dx * si + co) / vecLen in
               if cosAng \<ge> 0
               then rtc_switch d line x form inout dx dy dz cosAng
               else Inr inout)))))))"

function radio_loop ::
  "sar_consts \<Rightarrow> deskew_dem_data \<Rightarrow> real list \<Rightarrow> real list \<Rightarrow> int \<Rightarrow> int \<Rightarrow> int \<Rightarrow> real list \<Rightarrow> int
     \<Rightarrow> real list \<Rightarrow> error + real list" where
  "radio_loop c d grDEM grDEMprev ns line form maskl x inout =
     (if x < ns
      then ebind (radio_body c d grDEM grDEMprev line form maskl x inout)
             (\<lambda>io. radio_loop c d grDEM grDEMprev ns line form maskl (x + 1) io)
      else Inr inout)"
  by pat_completeness auto
termination
  by (relation "measure (\<lambda>(c, d, grDEM, grDEMprev, ns, line, form, maskl, x, inout). nat (ns - x))")
    auto

text \<open>Line 507 returns at once for form 0; line 541 then overwrites \<open>form\<close> with 5.\<close>

definition radio_compensate ::
  "sar_consts \<Rightarrow> deskew_dem_data \<Rightarrow> real list \<Rightarrow> real list \<Rightarrow> real list \<Rightarrow> int \<Rightarrow> int \<Rightarrow> int
     \<Rightarrow> real list \<Rightarrow> error + real list" where
  "radio_compensate c d grDEM grDEMprev inout ns line form maskl =
     (if form = 0 then Inr inout
      else (let form = 5 in radio_loop c d grDEM grDEMprev ns line form maskl 1 inout))"

subsection \<open>Concrete lines used in the examples\<close>

text \<open>
  The values of the constants below are chosen for the examples only; every general
  theorem holds for all values of the constants.
\<close>

definition ex_consts :: sar_consts where
  "ex_consts = \<lparr>BAD_DEM_HEIGHT = - 9999, NO_DEM_DATA = - 7777, MASK_NORMAL = 1,
     MASK_USER_MASK = 2, MASK_LAYOVER = 4, MASK_SHADOW = 3, MASK_INVALID_DATA = 5\<rparr>"

text \<open>
  Metadata with satellite height 2, slant range 1 and earth radius 1 at every pixel: the
  look value of a pixel of height 0 is \<open>-1\<close>, that of a pixel of height 7 is \<open>1\<close>.
\<close>

definition ex_meta :: meta_parameters where
  "ex_meta = \<lparr>meta_get_sat_height = (\<lambda>l s. 2), meta_get_slant = (\<lambda>l s. 1),
              meta_get_earth_radius = (\<lambda>l s. 1), meta_incid = (\<lambda>l s. 1)\<rparr>"

text \<open>
  A geometry of \<open>n\<close> samples with the tables \<open>slantGR\<close>, \<open>heightShiftGR\<close>, \<open>groundSR\<close> and
  \<open>heightShiftSR\<close> as given, and an incidence angle of 90 degrees at every sample.
\<close>

definition ex_geom ::
  "int \<Rightarrow> real list \<Rightarrow> real list \<Rightarrow> real list \<Rightarrow> real list \<Rightarrow> deskew_dem_data" where
  "ex_geom n sgr hgr gsr hsr =
     \<lparr>numLines = 1, numSamples = n, grPixelSize = 1, slantGR = sgr, heightShiftGR = hgr,
      heightShiftSR = hsr, groundSR = gsr, slantRangeSqr = replicate (nat n) 1,
      slantRange = replicate (nat n) 1, incidAng = replicate (nat n) 0,
      sinIncidAng = replicate (nat n) 1, cosIncidAng = replicate (nat n) 0,
      minPhi = 0, maxPhi = 1, phiMul = 1, meta = ex_meta\<rparr>"

text \<open>Four samples, ground range equal to slant range, no height shift.\<close>

definition flat4 :: deskew_dem_data where
  "flat4 = ex_geom 4 [0, 1, 2, 3] [0, 0, 0, 0] [0, 1, 2, 3] [0, 0, 0, 0]"

text \<open>The same with an incidence angle whose sine is 4/5 and whose cosine is 3/5.\<close>

definition slope4 :: deskew_dem_data where
  "slope4 = flat4\<lparr>sinIncidAng := [4/5, 4/5, 4/5, 4/5], cosIncidAng := [3/5, 3/5, 3/5, 3/5]\<rparr>"

text \<open>Six samples; the ground pixels 1, 2 and 3 fall into slant-range pixel 1.\<close>

definition lay6 :: deskew_dem_data where
  "lay6 = ex_geom 6 [0, 6/5, 7/5, 8/5, 4, 5] [0, 0, 0, 0, 0, 0] [0, 1, 2, 3, 4, 5]
            [0, 0, 0, 0, 0, 0]"

text \<open>
  Six samples with a height shift of a quarter of a pixel per metre; on flat terrain no
  slant-range pixel is hit three times.
\<close>

definition peak6 :: deskew_dem_data where
  "peak6 = ex_geom 6 [0, 1, 3/2, 5/2, 7/2, 9/2] [1/4, 1/4, 1/4, 1/4, 1/4, 1/4]
             [0, 1, 5/2, 7/2, 9/2, 11/2] [0, 0, 0, 0, 0, 0]"

text \<open>Eight samples; slant-range samples 0 and 1 lie five ground-range pixels apart.\<close>

definition jump8 :: deskew_dem_data where
  "jump8 = ex_geom 8 [0, 1, 2, 3, 4, 5, 6, 7] [0, 0, 0, 0, 0, 0, 0, 0]
             [0, 5, 6, 7, 7, 7, 7, 7] [0, 0, 0, 0, 0, 0, 0, 0]"

text \<open>
  The line of \<open>peak6\<close> with heights \<open>[0, 0, 0, 7, 0, 0]\<close>, all pixels normal: the state
  of \<open>geo_compensate\<close> when the sweep starts, and after ground pixels 0 to 3.
\<close>

definition peak_st0 :: geo_state where
  "peak_st0 = \<lparr>out = [0, 0, 0, 0, 0, 0], mask = Some [1, 1, 1, 1, 1, 1],
     sr_hits = [- 1, - 1, - 1, - 1, - 1, - 1, - 1, - 1, - 1, - 1, - 1, - 1], valid_data_yet = 0,
     max_height = 0, last_good_height = 0, max_valid_srX = - 1, max_valid_srX_height = 0,
     biggest_look = - 2, n_layover = 0, n_shadow = 0\<rparr>"

definition peak_st3 :: geo_state where
  "peak_st3 = \<lparr>out = [0, 11, 23/2, 89/8, 0, 0], mask = Some [1, 4, 4, 4, 1, 1],
     sr_hits = [- 1, 1, - 1, - 1, - 1, - 1, - 1, 2, - 1, - 1, - 1, - 1], valid_data_yet = 1,
     max_height = 7, last_good_height = 7, max_valid_srX = 3/2, max_valid_srX_height = 0,
     biggest_look = 1, n_layover = 3, n_shadow = 0\<rparr>"


subsection \<open>Notions used to state the properties\<close>

text \<open>
  \<open>normal_only c m m'\<close>: the mask \<open>m'\<close> differs from \<open>m\<close> only at pixels whose value in
  \<open>m\<close> is normal.
\<close>

definition normal_only :: "sar_consts \<Rightarrow> real list \<Rightarrow> real list \<Rightarrow> bool" where
  "normal_only c m m' =
     (length m' = length m \<and> (\<forall>i < length m. m' ! i \<noteq> m ! i \<longrightarrow> m ! i = MASK_NORMAL c))"

text \<open>
  The output pixel as the specification words it: 0 outside \<open>[1, ns - 1)\<close>, else the
  bilinear sample when \<open>doInterp\<close> is set and the nearest neighbour otherwise.
\<close>

definition resample_spec :: "real list \<Rightarrow> int \<Rightarrow> int \<Rightarrow> real \<Rightarrow> real" where
  "resample_spec inl ns doInterp srX =
     (if 1 \<le> srX \<and> srX < real_of_int (ns - 1)
      then
        (if doInterp \<noteq> 0
         then (1 - (srX - real_of_int \<lfloor>srX\<rfloor>)) * inl ! nat \<lfloor>srX\<rfloor>
              + (srX - real_of_int \<lfloor>srX\<rfloor>) * inl ! nat (\<lfloor>srX\<rfloor> + 1)
         else if srX - real_of_int \<lfloor>srX\<rfloor> \<le> 1 / 2 then inl ! nat \<lfloor>srX\<rfloor>
         else inl ! nat (\<lfloor>srX\<rfloor> + 1))
      else 0)"

section \<open>Properties\<close>

subsection \<open>Checked access and the error monad\<close>

lemma ebind_Inr [simp]: "ebind (Inr v) f = f v"
  by (simp add: ebind_def)

lemma ebind_Inl [simp]: "ebind (Inl e) f = Inl e"
  by (simp add: ebind_def)

lemma ebind_eq_Inr: "(ebind m f = Inr r) = (\<exists>v. m = Inr v \<and> f v = Inr r)"
  by (cases m) (auto simp: ebind_def)

lemma rd_eq_Inr: "(rd xs i = Inr v) = (0 \<le> i \<and> i < int (length xs) \<and> v = xs ! nat i)"
  by (auto simp: rd_def)

lemma wr_eq_Inr: "(wr xs i v = Inr ys) = (0 \<le> i \<and> i < int (length xs) \<and> ys = xs[nat i := v])"
  by (auto simp: wr_def)

lemmas ex_defs = ex_consts_def ex_meta_def ex_geom_def flat4_def slope4_def lay6_def peak6_def
  jump8_def

subsection \<open>SR2GR and dem\_gr2sr: the read before the clamp\<close>

text \<open>
  When the truncated position is an index of the height-shift table and the line has at
  least two samples, every read of \<open>SR2GR\<close> is inside the tables.
\<close>

lemma c_int_clamp:
  assumes "2 \<le> n"
  shows "0 \<le> c_int (if (if a < 0 then 0 else a) \<ge> real_of_int (n - 1) then real_of_int (n - 2)
                      else (if a < 0 then 0 else a))
         \<and> c_int (if (if a < 0 then 0 else a) \<ge> real_of_int (n - 1) then real_of_int (n - 2)
                      else (if a < 0 then 0 else a)) + 1 < n"
proof -
  define e where "e = (if (if a < 0 then 0 else a) \<ge> real_of_int (n - 1) then real_of_int (n - 2)
                      else (if a < 0 then 0 else a))"
  have "0 \<le> e" using assms by (auto simp: e_def)
  moreover have "e < real_of_int (n - 1)" by (auto simp: e_def)
  ultimately have "0 \<le> c_int e \<and> c_int e + 1 < n"
    using floor_less_iff [of e "n - 1"] by (simp add: c_int_def)
  then show ?thesis by (simp only: e_def)
qed

lemma SR2GR_inside:
  assumes "2 \<le> numSamples d" "int (length (heightShiftSR d)) = numSamples d"
    "int (length (groundSR d)) = numSamples d" "0 \<le> c_int srX" "c_int srX < numSamples d"
  shows "\<exists>g. SR2GR d srX height = Inr g"
  using assms c_int_clamp [OF assms(1), of "srX - height * heightShiftSR d ! nat (c_int srX)"]
  unfolding SR2GR_def Let_def rd_def
  by (simp del: of_int_diff split del: if_split)

lemma dem_gr2sr_inside:
  assumes "2 \<le> numSamples d" "int (length (heightShiftGR d)) = numSamples d"
    "int (length (slantGR d)) = numSamples d" "0 \<le> c_int grX" "c_int grX < numSamples d"
  shows "\<exists>g. dem_gr2sr d grX height = Inr g"
  using assms c_int_clamp [OF assms(1), of "grX - height * heightShiftGR d ! nat (c_int grX)"]
  unfolding dem_gr2sr_def Let_def rd_def
  by (simp del: of_int_diff split del: if_split)

text \<open>
  C2. The claim: for every position and height, all array accesses of \<open>SR2GR\<close> and
  \<open>dem_gr2sr\<close> stay inside the arrays of length \<open>numSamples\<close>, because the position is
  clamped before any array is indexed. The code reads \<open>heightShiftSR[(int)srX]\<close> (resp.
  \<open>heightShiftGR[(int)grX]\<close>) before the clamp: at position \<open>-1\<close>, and at position
  \<open>numSamples\<close>, that read is outside the table of a four-sample line.
\<close>

theorem SR2GR_dem_gr2sr_read_before_clamp:
  "SR2GR flat4 (- 1) 0 = Inl OutOfBounds \<and> SR2GR flat4 4 0 = Inl OutOfBounds
     \<and> dem_gr2sr flat4 (- 1) 0 = Inl OutOfBounds \<and> dem_gr2sr flat4 4 0 = Inl OutOfBounds"
  by (simp add: SR2GR_def dem_gr2sr_def ex_defs rd_def c_int_def)

subsection \<open>dem\_sr2gr\<close>

declare fill_no_data.simps [simp del] interp_loop.simps [simp del] sr2gr_init.simps [simp del]
  sr2gr_loop.simps [simp del]


lemma interp_loop_result:
  "interp_loop a b cur delt ob = Inr ob' \<Longrightarrow>
     length ob' = length ob
     \<and> (\<forall>k < length ob. ob' ! k
           = (if a \<le> int k \<and> int k \<le> b then cur + real_of_int (int k - a) * delt else ob ! k))"
proof (induction a b cur delt ob rule: interp_loop.induct)
  case (1 a b cur delt ob)
  show ?case
  proof (cases "a \<le> b")
    case True
    note ab = True
    with "1.prems" obtain ob1 where
      w: "wr ob a cur = Inr ob1" and r: "interp_loop (a + 1) b (cur + delt) delt ob1 = Inr ob'"
      by (subst (asm) interp_loop.simps) (auto simp: ebind_eq_Inr)
    from w have a: "0 \<le> a" "a < int (length ob)" "ob1 = ob[nat a := cur]"
      by (simp_all add: wr_eq_Inr)
    from "1.IH" [OF True r] a(3) have
      l: "length ob' = length ob" and
      ih: "\<And>k. k < length ob \<Longrightarrow> ob' ! k
             = (if a + 1 \<le> int k \<and> int k \<le> b
                then cur + delt + real_of_int (int k - (a + 1)) * delt else ob1 ! k)"
      by simp_all
    have "ob' ! k = (if a \<le> int k \<and> int k \<le> b
                     then cur + real_of_int (int k - a) * delt else ob ! k)"
      if k: "k < length ob" for k
    proof (cases "int k = a")
      case True
      then have "k = nat a" by simp
      with ih [OF k] a ab show ?thesis by simp
    next
      case False
      then have "k \<noteq> nat a" using a(1) by auto
      with ih [OF k] a False show ?thesis by (auto simp: algebra_simps)
    qed
    with l show ?thesis by simp
  next
    case False
    with "1.prems" show ?thesis
      by (subst (asm) interp_loop.simps) auto
  qed
qed

lemma sr2gr_init_result:
  "sr2gr_init c a ns ob = Inr ob' \<Longrightarrow>
     length ob' = length ob
     \<and> (\<forall>k < length ob. ob' ! k = (if a \<le> int k \<and> int k < ns then badDEMht c else ob ! k))"
proof (induction c a ns ob rule: sr2gr_init.induct)
  case (1 c a ns ob)
  show ?case
  proof (cases "a < ns")
    case True
    note ab = True
    with "1.prems" obtain ob1 where
      w: "wr ob a (badDEMht c) = Inr ob1" and r: "sr2gr_init c (a + 1) ns ob1 = Inr ob'"
      by (subst (asm) sr2gr_init.simps) (auto simp: ebind_eq_Inr)
    from w have a: "0 \<le> a" "a < int (length ob)" "ob1 = ob[nat a := badDEMht c]"
      by (simp_all add: wr_eq_Inr)
    from "1.IH" [OF True r] a(3) have
      l: "length ob' = length ob" and
      ih: "\<And>k. k < length ob \<Longrightarrow> ob' ! k
             = (if a + 1 \<le> int k \<and> int k < ns then badDEMht c else ob1 ! k)"
      by simp_all
    have "ob' ! k = (if a \<le> int k \<and> int k < ns then badDEMht c else ob ! k)"
      if k: "k < length ob" for k
    proof (cases "int k = a")
      case True
      then have "k = nat a" by simp
      with ih [OF k] a ab show ?thesis by simp
    next
      case False
      then have "k \<noteq> nat a" using a(1) by auto
      with ih [OF k] a False show ?thesis by auto
    qed
    with l show ?thesis by simp
  next
    case False
    with "1.prems" show ?thesis
      by (subst (asm) sr2gr_init.simps) auto
  qed
qed

lemma interp_shift:
  "(v + dl) + real_of_int (k - (a + 1)) * dl = v + real_of_int (k - a) * (dl :: real)"
  by (simp add: algebra_simps)

text \<open>
  The state \<open>(lastOutX, lastOutValue)\<close> is that of the last valid sample: an input sample
  with a bad height or an output position outside the line leaves the state as it is, and
  the first valid sample of a line only records its position and height.
\<close>

lemma dem_sr2gr_body_skip:
  assumes "dem_sr2gr_body c d inBuf ns fill_holes inX s = Inr s'"
    and "rd inBuf inX = Inr height" "SR2GR d (real_of_int inX) height = Inr g"
    and "\<not> (height > badDEMht c \<and> 0 \<le> c_int g \<and> c_int g < ns)"
  shows "s' = s"
  using assms by (auto simp: dem_sr2gr_body_def Let_def)

lemma dem_sr2gr_body_first:
  assumes "dem_sr2gr_body c d inBuf ns fill_holes inX s = Inr s'"
    and "rd inBuf inX = Inr height" "SR2GR d (real_of_int inX) height = Inr g"
    and "height > badDEMht c" "0 \<le> c_int g" "c_int g < ns"
    and "lastOutValue s = badDEMht c"
    and "\<not> eq (lastOutValue s) (NO_DEM_DATA c) 0.0001" "\<not> eq height (NO_DEM_DATA c) 0.0001"
  shows "s' = \<lparr>outBuf = outBuf s, lastOutX = c_int g, lastOutValue = height\<rparr>"
  using assms by (simp add: dem_sr2gr_body_def Let_def)

lemmas sr2gr_defs = dem_sr2gr_def dem_sr2gr_body_def sr2gr_init.simps sr2gr_loop.simps
  fill_no_data.simps interp_loop.simps SR2GR_def rd_def wr_def c_int_def eq_def badDEMht_def
  maxBreakLen_def Let_def

lemma jump8_positions: "SR2GR jump8 0 10 = Inr 0 \<and> SR2GR jump8 1 20 = Inr 5"
  by (simp add: sr2gr_defs ex_defs)

lemma jump8_init:
  "sr2gr_init ex_consts 0 8 [0, 0, 0, 0, 0, 0, 0, 0]
     = Inr [- 9999, - 9999, - 9999, - 9999, - 9999, - 9999, - 9999, - 9999]"
  by (simp add: sr2gr_defs ex_defs)

lemma jump8_line:
  "dem_sr2gr ex_consts jump8 [10, 20, - 9999, - 9999, - 9999, - 9999, - 9999, - 9999]
     [0, 0, 0, 0, 0, 0, 0, 0] 8 fill_holes
   = Inr (if fill_holes \<noteq> 0 then [- 9999, 12, 14, 16, 18, 20, - 9999, - 9999]
          else [- 9999, - 9999, - 9999, - 9999, - 9999, - 9999, - 9999, - 9999])"
  by (simp add: sr2gr_defs ex_defs)

lemma jump8_body:
  "dem_sr2gr_body ex_consts jump8 [10, 20, - 9999, - 9999, - 9999, - 9999, - 9999, - 9999] 8 1 1
     \<lparr>outBuf = [- 9999, - 9999, - 9999, - 9999, - 9999, - 9999, - 9999, - 9999],
      lastOutX = 0, lastOutValue = 10\<rparr>
   = Inr \<lparr>outBuf = [- 9999, 12, 14, 16, 18, 20, - 9999, - 9999], lastOutX = 5, lastOutValue = 20\<rparr>"
  by (simp add: sr2gr_defs ex_defs)


lemma jump8_no_data_line:
  "dem_sr2gr ex_consts jump8 [- 7777, 20, - 9999, - 9999, - 9999, - 9999, - 9999, - 9999]
     [0, 0, 0, 0, 0, 0, 0, 0] 8 0
   = Inr [- 7777, - 7777, - 7777, - 7777, - 7777, - 7777, - 9999, - 9999]"
  by (simp add: sr2gr_defs ex_defs)




text \<open>
  C5. The claim: a gap between consecutive valid samples is interpolated unless
  \<open>fill_holes\<close> is false and the gap exceeds 5 pixels. The code interpolates only when
  \<open>outX - lastOutX < 5\<close>: in the line below the two valid samples land on output pixels
  0 and 5, a gap that does not exceed 5, and with \<open>fill_holes = 0\<close> every pixel keeps the
  bad sentinel.
\<close>

theorem dem_sr2gr_gap_of_5_not_filled:
  "SR2GR jump8 0 10 = Inr 0 \<and> SR2GR jump8 1 20 = Inr 5
   \<and> dem_sr2gr ex_consts jump8 [10, 20, - 9999, - 9999, - 9999, - 9999, - 9999, - 9999]
        [0, 0, 0, 0, 0, 0, 0, 0] 8 0
      = Inr [- 9999, - 9999, - 9999, - 9999, - 9999, - 9999, - 9999, - 9999]"
  using jump8_positions jump8_line [of 0] by simp

text \<open>
  C5, as amended. The first loop sets every output position below \<open>ns\<close> to the bad
  sentinel. Then, at a valid input sample that follows a valid sample (\<open>lastOutValue\<close> is
  not the bad sentinel) where neither height is the "no DEM data" sentinel: when
  \<open>fill_holes\<close> is set or the two output positions are less than 5 pixels apart, the
  pixels after the previous position up to and including the current one get the linear
  interpolation between the two heights; when \<open>fill_holes\<close> is 0 and the positions are 5
  or more pixels apart, no pixel is written.
\<close>

theorem dem_sr2gr_gap:
  "(sr2gr_init c 0 ns ob = Inr ob' \<longrightarrow>
       length ob' = length ob \<and> (\<forall>k < length ob. int k < ns \<longrightarrow> ob' ! k = badDEMht c))
   \<and> (dem_sr2gr_body c d inBuf ns fill_holes inX s = Inr s'
        \<and> rd inBuf inX = Inr height \<and> SR2GR d (real_of_int inX) height = Inr g
        \<and> height > badDEMht c \<and> 0 \<le> c_int g \<and> c_int g < ns
        \<and> lastOutValue s \<noteq> badDEMht c
        \<and> \<not> eq (lastOutValue s) (NO_DEM_DATA c) 0.0001 \<and> \<not> eq height (NO_DEM_DATA c) 0.0001
      \<longrightarrow> length (outBuf s') = length (outBuf s)
          \<and> lastOutX s' = c_int g \<and> lastOutValue s' = height
          \<and> (fill_holes \<noteq> 0 \<or> c_int g - lastOutX s < 5 \<longrightarrow>
               (\<forall>k < length (outBuf s). outBuf s' ! k
                  = (if lastOutX s < int k \<and> int k \<le> c_int g
                     then lastOutValue s
                          + real_of_int (int k - lastOutX s)
                            * ((height - lastOutValue s) / real_of_int (c_int g - lastOutX s))
                     else outBuf s ! k)))
          \<and> (fill_holes = 0 \<and> c_int g - lastOutX s \<ge> 5 \<longrightarrow> outBuf s' = outBuf s))"
proof -
  have p1: "length ob' = length ob \<and> (\<forall>k < length ob. int k < ns \<longrightarrow> ob' ! k = badDEMht c)"
    if "sr2gr_init c 0 ns ob = Inr ob'"
    using sr2gr_init_result [OF that] by auto
  have p2: "length (outBuf s') = length (outBuf s)
          \<and> lastOutX s' = c_int g \<and> lastOutValue s' = height
          \<and> (fill_holes \<noteq> 0 \<or> c_int g - lastOutX s < 5 \<longrightarrow>
               (\<forall>k < length (outBuf s). outBuf s' ! k
                  = (if lastOutX s < int k \<and> int k \<le> c_int g
                     then lastOutValue s
                          + real_of_int (int k - lastOutX s)
                            * ((height - lastOutValue s) / real_of_int (c_int g - lastOutX s))
                     else outBuf s ! k)))
          \<and> (fill_holes = 0 \<and> c_int g - lastOutX s \<ge> 5 \<longrightarrow> outBuf s' = outBuf s)"
    if a: "dem_sr2gr_body c d inBuf ns fill_holes inX s = Inr s'
        \<and> rd inBuf inX = Inr height \<and> SR2GR d (real_of_int inX) height = Inr g
        \<and> height > badDEMht c \<and> 0 \<le> c_int g \<and> c_int g < ns
        \<and> lastOutValue s \<noteq> badDEMht c
        \<and> \<not> eq (lastOutValue s) (NO_DEM_DATA c) 0.0001 \<and> \<not> eq height (NO_DEM_DATA c) 0.0001"
  proof -
    let ?delt = "(height - lastOutValue s) / real_of_int (c_int g - lastOutX s)"
    from a have b: "dem_sr2gr_body c d inBuf ns fill_holes inX s = Inr s'"
      and r: "rd inBuf inX = Inr height" "SR2GR d (real_of_int inX) height = Inr g"
        "height > badDEMht c" "0 \<le> c_int g" "c_int g < ns" "lastOutValue s \<noteq> badDEMht c"
        "\<not> eq (lastOutValue s) (NO_DEM_DATA c) 0.0001" "\<not> eq height (NO_DEM_DATA c) 0.0001"
      by blast+
    show ?thesis
    proof (cases "fill_holes \<noteq> 0 \<or> c_int g - lastOutX s < 5")
      case True
      with b r have "ebind (interp_loop (lastOutX s + 1) (c_int g) (lastOutValue s + ?delt) ?delt
                             (outBuf s))
          (\<lambda>ob. Inr \<lparr>outBuf = ob, lastOutX = c_int g, lastOutValue = height\<rparr>) = Inr s'"
        by (simp add: dem_sr2gr_body_def Let_def maxBreakLen_def)
      then obtain ob where
        f: "interp_loop (lastOutX s + 1) (c_int g) (lastOutValue s + ?delt) ?delt (outBuf s)
              = Inr ob" and
        s': "s' = \<lparr>outBuf = ob, lastOutX = c_int g, lastOutValue = height\<rparr>"
        unfolding ebind_eq_Inr by blast
      from interp_loop_result [OF f, unfolded interp_shift] s' True show ?thesis
        by auto
    next
      case False
      with b r have "s' = \<lparr>outBuf = outBuf s, lastOutX = c_int g, lastOutValue = height\<rparr>"
        by (simp add: dem_sr2gr_body_def Let_def maxBreakLen_def)
      with False show ?thesis by simp
    qed
  qed
  from p1 p2 show ?thesis by blast
qed



theorem dem_sr2gr_gap_witness:
  "sr2gr_init ex_consts 0 8 [0, 0, 0, 0, 0, 0, 0, 0]
     = Inr [- 9999, - 9999, - 9999, - 9999, - 9999, - 9999, - 9999, - 9999]
   \<and> dem_sr2gr_body ex_consts jump8 [10, 20, - 9999, - 9999, - 9999, - 9999, - 9999, - 9999] 8 1 1
     \<lparr>outBuf = [- 9999, - 9999, - 9999, - 9999, - 9999, - 9999, - 9999, - 9999],
      lastOutX = 0, lastOutValue = 10\<rparr>
     = Inr \<lparr>outBuf = [- 9999, 12, 14, 16, 18, 20, - 9999, - 9999], lastOutX = 5,
            lastOutValue = 20\<rparr>
   \<and> rd [10, 20, - 9999, - 9999, - 9999, - 9999, - 9999, - 9999 :: real] 1 = Inr 20
   \<and> SR2GR jump8 (real_of_int 1) 20 = Inr 5
   \<and> [- 9999, 12, 14, 16, 18, 20, - 9999, - 9999 :: real] ! 3 = 10 + 3 * ((20 - 10) / 5)"
proof -
  have h: "rd [10, 20, - 9999, - 9999, - 9999, - 9999, - 9999, - 9999 :: real] 1 = Inr 20"
    "SR2GR jump8 (real_of_int 1) 20 = Inr 5"
    by (simp_all add: sr2gr_defs ex_defs)
  from dem_sr2gr_gap [where c = ex_consts and ns = 8 and ob = "[0, 0, 0, 0, 0, 0, 0, 0]"
      and ob' = "[- 9999, - 9999, - 9999, - 9999, - 9999, - 9999, - 9999, - 9999]"
      and d = jump8 and inBuf = "[10, 20, - 9999, - 9999, - 9999, - 9999, - 9999, - 9999]"
      and fill_holes = 1 and inX = 1 and height = 20 and g = 5
      and s = "\<lparr>outBuf = [- 9999, - 9999, - 9999, - 9999, - 9999, - 9999, - 9999, - 9999],
                lastOutX = 0, lastOutValue = 10\<rparr>"
      and s' = "\<lparr>outBuf = [- 9999, 12, 14, 16, 18, 20, - 9999, - 9999], lastOutX = 5,
                 lastOutValue = 20\<rparr>"]
    jump8_init jump8_body h
  show ?thesis by simp
qed

subsection \<open>geo\_compensate\<close>

declare hits_init.simps [simp del] geo_reset.simps [simp del] hit_loop.simps [simp del]
  mark_loop.simps [simp del] geo_sweep.simps [simp del] close_holes.simps [simp del]
  geo_edge.simps [simp del] mark_right.simps [simp del] mark_left.simps [simp del]

lemma normal_only_refl: "normal_only c m m"
  by (simp add: normal_only_def)

lemma normal_only_trans:
  "normal_only c m m1 \<Longrightarrow> normal_only c m1 m2 \<Longrightarrow> normal_only c m m2"
  unfolding normal_only_def by metis

lemma normal_only_update:
  "m ! k = MASK_NORMAL c \<Longrightarrow> normal_only c m (m[k := v])"
  by (cases "k < length m") (auto simp: normal_only_def nth_list_update)

lemma close_holes_result:
  "close_holes c ns g (m, nl, nsh) = Inr (m', nl', nsh') \<Longrightarrow>
     length m' = length m
     \<and> (\<forall>k < length m. m' ! k \<noteq> m ! k \<longrightarrow>
           g \<le> int k \<and> int k < ns - 2 \<and> m ! k = MASK_NORMAL c
           \<and> (m' ! k = MASK_LAYOVER c \<or> m' ! k = MASK_SHADOW c))"
proof (induction "nat (ns - 2 - g)" arbitrary: g m nl nsh)
  case 0
  then show ?case by (subst (asm) close_holes.simps) simp
next
  case (Suc n)
  then have lt: "g < ns - 2" and n: "n = nat (ns - 2 - (g + 1))" by simp_all
  with Suc.prems obtain v where v: "rd m g = Inr v" and
    r: "(if v = MASK_NORMAL c
          then
            ebind (both_sides m g (MASK_LAYOVER c)) (\<lambda>lay.
              if lay
              then ebind (wr m g (MASK_LAYOVER c))
                     (\<lambda>m'. close_holes c ns (g + 1) (m', nl + 1, nsh))
              else
                ebind (both_sides m g (MASK_SHADOW c)) (\<lambda>sh.
                  if sh
                  then ebind (wr m g (MASK_SHADOW c))
                         (\<lambda>m'. close_holes c ns (g + 1) (m', nl, nsh + 1))
                  else close_holes c ns (g + 1) (m, nl, nsh)))
          else close_holes c ns (g + 1) (m, nl, nsh)) = Inr (m', nl', nsh')"
    by (subst (asm) close_holes.simps) (auto simp: ebind_eq_Inr)
  from v have g: "0 \<le> g" "g < int (length m)" "v = m ! nat g"
    by (simp_all add: rd_eq_Inr)
  consider
    (same) "close_holes c ns (g + 1) (m, nl, nsh) = Inr (m', nl', nsh')"
    | (lay) "v = MASK_NORMAL c"
        "close_holes c ns (g + 1) (m[nat g := MASK_LAYOVER c], nl + 1, nsh) = Inr (m', nl', nsh')"
    | (sh) "v = MASK_NORMAL c"
        "close_holes c ns (g + 1) (m[nat g := MASK_SHADOW c], nl, nsh + 1) = Inr (m', nl', nsh')"
    using r by (auto simp: ebind_eq_Inr wr_eq_Inr split: if_splits)
  then show ?case
  proof cases
    case same
    from Suc.hyps(1) [OF n same] show ?thesis by auto
  next
    case lay
    from Suc.hyps(1) [OF n lay(2)] have
      l: "length m' = length m" and
      ih: "\<And>k. k < length m \<Longrightarrow> m' ! k \<noteq> m[nat g := MASK_LAYOVER c] ! k \<Longrightarrow>
             g + 1 \<le> int k \<and> int k < ns - 2 \<and> m[nat g := MASK_LAYOVER c] ! k = MASK_NORMAL c
             \<and> (m' ! k = MASK_LAYOVER c \<or> m' ! k = MASK_SHADOW c)"
      by simp_all
    have "g \<le> int k \<and> int k < ns - 2 \<and> m ! k = MASK_NORMAL c
           \<and> (m' ! k = MASK_LAYOVER c \<or> m' ! k = MASK_SHADOW c)"
      if k: "k < length m" "m' ! k \<noteq> m ! k" for k
    proof (cases "k = nat g")
      case True
      with ih [OF k(1)] g have "m' ! k = MASK_LAYOVER c" by force
      with True g lay(1) lt show ?thesis by simp
    next
      case False
      with ih [OF k(1)] k(2) show ?thesis by simp
    qed
    with l show ?thesis by blast
  next
    case sh
    from Suc.hyps(1) [OF n sh(2)] have
      l: "length m' = length m" and
      ih: "\<And>k. k < length m \<Longrightarrow> m' ! k \<noteq> m[nat g := MASK_SHADOW c] ! k \<Longrightarrow>
             g + 1 \<le> int k \<and> int k < ns - 2 \<and> m[nat g := MASK_SHADOW c] ! k = MASK_NORMAL c
             \<and> (m' ! k = MASK_LAYOVER c \<or> m' ! k = MASK_SHADOW c)"
      by simp_all
    have "g \<le> int k \<and> int k < ns - 2 \<and> m ! k = MASK_NORMAL c
           \<and> (m' ! k = MASK_LAYOVER c \<or> m' ! k = MASK_SHADOW c)"
      if k: "k < length m" "m' ! k \<noteq> m ! k" for k
    proof (cases "k = nat g")
      case True
      with ih [OF k(1)] g have "m' ! k = MASK_SHADOW c" by force
      with True g sh(1) lt show ?thesis by simp
    next
      case False
      with ih [OF k(1)] k(2) show ?thesis by simp
    qed
    with l show ?thesis by blast
  qed
qed

text \<open>
  C9. The pass that closes holes of one pixel only promotes pixels at ground-range
  indices 2 to \<open>ns - 3\<close>: a pixel it changes lies in that range, was normal and becomes
  layover or shadow; the pixels at indices 0, 1, \<open>ns - 2\<close> and \<open>ns - 1\<close> are left as they
  were, whatever their neighbours hold.
\<close>

theorem close_holes_frame:
  "close_holes c ns 2 (m, nl, nsh) = Inr (m', nl', nsh') \<Longrightarrow>
     length m' = length m
     \<and> (\<forall>k < length m. m' ! k \<noteq> m ! k \<longrightarrow>
           2 \<le> int k \<and> int k \<le> ns - 3 \<and> m ! k = MASK_NORMAL c
           \<and> (m' ! k = MASK_LAYOVER c \<or> m' ! k = MASK_SHADOW c))
     \<and> (\<forall>k < length m. int k = 0 \<or> int k = 1 \<or> int k = ns - 2 \<or> int k = ns - 1
           \<longrightarrow> m' ! k = m ! k)"
  using close_holes_result [of c ns 2 m nl nsh m' nl' nsh'] by fastforce

text \<open>
  Seven pixels, layover at the even indices: the normal pixels 1 and 5 stay, pixel 3 is
  closed.
\<close>

lemma holes7:
  "close_holes ex_consts 7 2 ([4, 1, 4, 1, 4, 1, 4], 0, 0) = Inr ([4, 1, 4, 4, 4, 1, 4], 1, 0)"
  by (simp add: close_holes.simps both_sides_def rd_def wr_def ex_consts_def)

theorem close_holes_frame_witness:
  "close_holes ex_consts 7 2 ([4, 1, 4, 1, 4, 1, 4], 0, 0) = Inr ([4, 1, 4, 4, 4, 1, 4], 1, 0)
   \<and> [4, 1, 4, 4, 4, 1, 4 :: real] ! 1 = [4, 1, 4, 1, 4, 1, 4] ! 1
   \<and> [4, 1, 4, 4, 4, 1, 4 :: real] ! 5 = [4, 1, 4, 1, 4, 1, 4] ! 5
   \<and> [4, 1, 4, 4, 4, 1, 4 :: real] ! 3 = MASK_LAYOVER ex_consts"
  using close_holes_frame [OF holes7] holes7 by (simp add: ex_consts_def)


lemma geo_reset_result:
  "geo_reset c ns g (m, hits) = Inr (m', hits') \<Longrightarrow>
     length m' = length m
     \<and> (\<forall>k < length m. m' ! k
           = (if g \<le> int k \<and> int k < ns \<and> m ! k \<noteq> MASK_USER_MASK c
                 \<and> m ! k \<noteq> MASK_INVALID_DATA c
              then MASK_NORMAL c else m ! k))"
proof (induction "nat (ns - g)" arbitrary: g m hits)
  case 0
  then show ?case by (subst (asm) geo_reset.simps) simp
next
  case (Suc n)
  then have lt: "g < ns" and n: "n = nat (ns - (g + 1))" by simp_all
  with Suc.prems obtain v m1 hits1 where v: "rd m g = Inr v" and
    w: "(if v \<noteq> MASK_USER_MASK c \<and> v \<noteq> MASK_INVALID_DATA c
         then wr m g (MASK_NORMAL c) else Inr m) = Inr m1" and
    r: "geo_reset c ns (g + 1) (m1, hits1) = Inr (m', hits')"
    by (subst (asm) geo_reset.simps) (auto simp: ebind_eq_Inr)
  from v have g: "0 \<le> g" "g < int (length m)" "v = m ! nat g"
    by (simp_all add: rd_eq_Inr)
  from w g have m1: "m1 = (if m ! nat g \<noteq> MASK_USER_MASK c \<and> m ! nat g \<noteq> MASK_INVALID_DATA c
                          then m[nat g := MASK_NORMAL c] else m)"
    by (auto simp: wr_eq_Inr split: if_splits)
  then have l1: "length m1 = length m" by simp
  from Suc.hyps(1) [OF n r] l1 have
    l: "length m' = length m" and
    ih: "\<And>k. k < length m \<Longrightarrow> m' ! k
           = (if g + 1 \<le> int k \<and> int k < ns \<and> m1 ! k \<noteq> MASK_USER_MASK c
                 \<and> m1 ! k \<noteq> MASK_INVALID_DATA c
              then MASK_NORMAL c else m1 ! k)"
    by simp_all
  have "m' ! k = (if g \<le> int k \<and> int k < ns \<and> m ! k \<noteq> MASK_USER_MASK c
                 \<and> m ! k \<noteq> MASK_INVALID_DATA c
              then MASK_NORMAL c else m ! k)" if k: "k < length m" for k
  proof (cases "k = nat g")
    case True
    with ih [OF k] g lt m1 show ?thesis by simp
  next
    case False
    then have "int k \<noteq> g" using g by auto
    with ih [OF k] m1 False show ?thesis by auto
  qed
  with l show ?case by simp
qed

lemma cond_mark:
  assumes "ebind (rd m j) (\<lambda>v. if v = MASK_NORMAL c
                then ebind (wr m j w) (\<lambda>m'. f (m', nl + 1)) else f (m, nl)) = Inr r"
  shows "0 \<le> j \<and> j < int (length m)
     \<and> f (if m ! nat j = MASK_NORMAL c then (m[nat j := w], nl + 1) else (m, nl)) = Inr r"
  using assms by (auto simp: ebind_eq_Inr rd_eq_Inr wr_eq_Inr split: if_splits)






lemma mark_loop_normal:
  "mark_loop c ns x i hits (m, nl) = Inr (m', nl') \<Longrightarrow> normal_only c m m'"
proof (induction "nat (num_hits_required_for_layover - i)" arbitrary: i m nl)
  case 0
  then show ?case by (subst (asm) mark_loop.simps) (simp add: normal_only_refl)
next
  case (Suc n)
  then have lt: "i < num_hits_required_for_layover"
    and n: "n = nat (num_hits_required_for_layover - (i + 1))" by simp_all
  with Suc.prems obtain h where
    r: "ebind (rd m h) (\<lambda>v. if v = MASK_NORMAL c
          then ebind (wr m h (MASK_LAYOVER c)) (\<lambda>m'. mark_loop c ns x (i + 1) hits (m', nl + 1))
          else mark_loop c ns x (i + 1) hits (m, nl)) = Inr (m', nl')"
    by (subst (asm) mark_loop.simps) (auto simp: ebind_eq_Inr)
  from cond_mark [OF r] have
    "mark_loop c ns x (i + 1) hits
       (if m ! nat h = MASK_NORMAL c then (m[nat h := MASK_LAYOVER c], nl + 1) else (m, nl))
     = Inr (m', nl')" by simp
  then show ?case
    using Suc.hyps(1) [OF n, of "m[nat h := MASK_LAYOVER c]" "nl + 1"] Suc.hyps(1) [OF n, of m nl]
    by (auto split: if_splits intro: normal_only_trans [OF normal_only_update])
qed

lemma layover_step_normal:
  "layover_step c ns x grX (hits, m, nl) = Inr (hits', m', nl') \<Longrightarrow> normal_only c m m'"
  by (auto simp: layover_step_def ebind_eq_Inr rd_eq_Inr wr_eq_Inr normal_only_refl
      split: if_splits dest!: mark_loop_normal
      intro: normal_only_trans [OF _ normal_only_update])

lemma shadow_step_result:
  "shadow_step c grX look (b, m, nsh) = Inr r \<Longrightarrow>
     r = (if look \<ge> b then (look, m, nsh)
          else if m ! nat grX = MASK_NORMAL c then (b, m[nat grX := MASK_SHADOW c], nsh + 1)
          else (b, m, nsh))"
  by (auto simp: shadow_step_def ebind_eq_Inr rd_eq_Inr wr_eq_Inr split: if_splits)

lemma shadow_step_normal:
  "shadow_step c grX look (b, m, nsh) = Inr (b', m', nsh') \<Longrightarrow> normal_only c m m'"
  by (auto dest!: shadow_step_result simp: normal_only_refl normal_only_update split: if_splits)

lemma geo_track_result:
  assumes "geo_track c d grDEM ns sat_ht line x grX m st = Inr st'"
  shows "\<exists>hits1 m1 nl1 look b2 m2 nsh2.
     layover_step c ns x grX (sr_hits st, m, n_layover st) = Inr (hits1, m1, nl1)
     \<and> cur_look d grDEM sat_ht line grX = Inr look
     \<and> shadow_step c grX look (biggest_look st, m1, n_shadow st) = Inr (b2, m2, nsh2)
     \<and> st' = st\<lparr>sr_hits := hits1, mask := Some m2, n_layover := nl1,
                 biggest_look := b2, n_shadow := nsh2\<rparr>"
  using assms by (auto simp: geo_track_def ebind_eq_Inr split: prod.splits)

lemma geo_track_mask:
  assumes "geo_track c d grDEM ns sat_ht line x grX m st = Inr st'"
  shows "\<exists>m'. mask st' = Some m' \<and> normal_only c m m' \<and> out st' = out st"
proof -
  from geo_track_result [OF assms] obtain hits1 m1 nl1 look b2 m2 nsh2 where
    "layover_step c ns x grX (sr_hits st, m, n_layover st) = Inr (hits1, m1, nl1)"
    "shadow_step c grX look (biggest_look st, m1, n_shadow st) = Inr (b2, m2, nsh2)"
    "st' = st\<lparr>sr_hits := hits1, mask := Some m2, n_layover := nl1,
                 biggest_look := b2, n_shadow := nsh2\<rparr>"
    by blast
  then show ?thesis
    by (auto dest!: layover_step_normal shadow_step_normal intro: normal_only_trans)
qed


lemma sample_in_spec:
  "sample_in inl doInterp srX = Inr v \<Longrightarrow> 1 \<le> srX \<Longrightarrow> srX < real_of_int (ns - 1)
     \<Longrightarrow> v = resample_spec inl ns doInterp srX"
  by (auto simp: sample_in_def resample_spec_def Let_def ebind_eq_Inr rd_eq_Inr split: if_splits)

lemma geo_in_swath_result:
  assumes "geo_in_swath c d grDEM inl ns doInterp sat_ht line grX height srX st = Inr st'"
  shows "\<exists>v. sample_in inl doInterp srX = Inr v \<and> 0 \<le> grX \<and> grX < int (length (out st))
     \<and> out st' = (out st)[nat grX := v]
     \<and> (case mask st of None \<Rightarrow> mask st' = None
         | Some m \<Rightarrow> (\<exists>m'. mask st' = Some m' \<and> normal_only c m m'))"
proof -
  from assms obtain v ob where
    v: "sample_in inl doInterp srX = Inr v" and ob: "wr (out st) grX v = Inr ob" and
    r: "(let st = st\<lparr>out := ob, valid_data_yet := 1\<rparr>;
           st = (if srX > max_valid_srX st
                 then st\<lparr>max_valid_srX := srX, max_valid_srX_height := height\<rparr>
                 else st)
       in case mask st of
            None \<Rightarrow> Inr st
          | Some m \<Rightarrow> geo_track c d grDEM ns sat_ht line \<lfloor>srX\<rfloor> grX m st) = Inr st'"
    unfolding geo_in_swath_def ebind_eq_Inr by blast
  from ob have o: "0 \<le> grX" "grX < int (length (out st))" "ob = (out st)[nat grX := v]"
    by (simp_all add: wr_eq_Inr)
  show ?thesis
  proof (cases "mask st")
    case None
    with r o v show ?thesis by (auto simp: Let_def split: if_splits)
  next
    case (Some m)
    with r o v show ?thesis
      by (auto simp: Let_def split: if_splits dest!: geo_track_mask)
  qed
qed

lemma geo_good_result:
  assumes "geo_good c d grDEM inl ns doInterp sat_ht line grX height st = Inr st'"
  shows "\<exists>srX. dem_gr2sr d (real_of_int grX) height = Inr srX
     \<and> 0 \<le> grX \<and> grX < int (length (out st))
     \<and> out st' = (out st)[nat grX := resample_spec inl ns doInterp srX]
     \<and> (case mask st of None \<Rightarrow> mask st' = None
         | Some m \<Rightarrow> (\<exists>m'. mask st' = Some m' \<and> normal_only c m m'))"
proof -
  from assms obtain srX where
    s: "dem_gr2sr d (real_of_int grX) height = Inr srX" and
    r: "(let st = st\<lparr>max_height := (if height > max_height st then height else max_height st),
                   last_good_height := height\<rparr>
       in
       if srX \<ge> 1 \<and> srX < real_of_int (ns - 1)
       then geo_in_swath c d grDEM inl ns doInterp sat_ht line grX height srX st
       else ebind (wr (out st) grX 0) (\<lambda>ob. Inr (st\<lparr>out := ob\<rparr>))) = Inr st'"
    unfolding geo_good_def ebind_eq_Inr by blast
  let ?st1 = "st\<lparr>max_height := (if height > max_height st then height else max_height st),
                   last_good_height := height\<rparr>"
  show ?thesis
  proof (cases "srX \<ge> 1 \<and> srX < real_of_int (ns - 1)")
    case True
    from r have "geo_in_swath c d grDEM inl ns doInterp sat_ht line grX height srX ?st1 = Inr st'"
      unfolding Let_def if_P [OF True] .
    from geo_in_swath_result [OF this] True s show ?thesis
      by (auto dest: sample_in_spec [where ns = ns])
  next
    case False
    from r have "ebind (wr (out ?st1) grX 0) (\<lambda>ob. Inr (?st1\<lparr>out := ob\<rparr>)) = Inr st'"
      unfolding Let_def if_not_P [OF False] .
    with False s show ?thesis
      by (cases "mask st")
        (auto simp: ebind_eq_Inr wr_eq_Inr resample_spec_def normal_only_refl)
  qed
qed

lemma geo_bad_result:
  assumes "geo_bad d inl ns grX st = Inr st'"
  shows "\<exists>v. 0 \<le> grX \<and> grX < int (length (out st)) \<and> out st' = (out st)[nat grX := v]
     \<and> mask st' = mask st \<and> sr_hits st' = sr_hits st \<and> biggest_look st' = biggest_look st
     \<and> n_layover st' = n_layover st \<and> n_shadow st' = n_shadow st"
proof -
  from assms obtain srX where
    r: "(if valid_data_yet st \<noteq> 0 \<and> srX \<ge> 0 \<and> srX < real_of_int (ns - 1)
       then
         ebind (rd inl (c_int (srX + 0.5))) (\<lambda>v.
         ebind (wr (out st) grX v) (\<lambda>ob.
           let st = st\<lparr>out := ob\<rparr> in
           if v \<noteq> 0
           then (if srX > max_valid_srX st
                 then Inr (st\<lparr>max_valid_srX := srX,
                               max_valid_srX_height := last_good_height st\<rparr>)
                 else Inr st)
           else Inr st))
       else ebind (wr (out st) grX 0) (\<lambda>ob. Inr (st\<lparr>out := ob\<rparr>))) = Inr st'"
    unfolding geo_bad_def ebind_eq_Inr by blast
  show ?thesis
  proof (cases "valid_data_yet st \<noteq> 0 \<and> srX \<ge> 0 \<and> srX < real_of_int (ns - 1)")
    case True
    from r obtain v ob where ob: "wr (out st) grX v = Inr ob" and
      "st' = st\<lparr>out := ob\<rparr>
        \<or> st' = st\<lparr>out := ob, max_valid_srX := srX, max_valid_srX_height := last_good_height st\<rparr>"
      unfolding if_P [OF True] ebind_eq_Inr Let_def by (auto split: if_splits)
    with ob show ?thesis by (auto simp: wr_eq_Inr)
  next
    case False
    from r obtain ob where "wr (out st) grX 0 = Inr ob" "st' = st\<lparr>out := ob\<rparr>"
      unfolding if_not_P [OF False] ebind_eq_Inr by blast
    then show ?thesis by (auto simp: wr_eq_Inr)
  qed
qed

lemma geo_body_cases:
  assumes "geo_body c d grDEM inl ns doInterp sat_ht line grX st = Inr st'"
  obtains (good) h where "rd grDEM grX = Inr h" "\<not> h < - 900" "h \<noteq> badDEMht c"
      "geo_good c d grDEM inl ns doInterp sat_ht line grX h st = Inr st'"
    | (bad) h where "rd grDEM grX = Inr h" "h < - 900 \<or> h = badDEMht c"
      "geo_bad d inl ns grX st = Inr st'"
  using assms
  by (auto simp: geo_body_def Let_def ebind_eq_Inr split: if_splits)

lemma geo_body_mask:
  assumes "geo_body c d grDEM inl ns doInterp sat_ht line grX st = Inr st'" "mask st = Some m"
  shows "\<exists>m'. mask st' = Some m' \<and> normal_only c m m'"
  using assms(1)
proof (cases rule: geo_body_cases)
  case (good h)
  from geo_good_result [OF good(4)] assms(2) show ?thesis by auto
next
  case (bad h)
  from geo_bad_result [OF bad(3)] assms(2) show ?thesis by (auto simp: normal_only_refl)
qed


lemma geo_body_valid_out:
  assumes "geo_body c d grDEM inl ns doInterp sat_ht line grX st = Inr st'"
    and "rd grDEM grX = Inr h" "\<not> h < - 900" "h \<noteq> badDEMht c"
  shows "\<exists>srX. dem_gr2sr d (real_of_int grX) h = Inr srX
     \<and> out st' ! nat grX = resample_spec inl ns doInterp srX"
  using assms(1)
proof (cases rule: geo_body_cases)
  case (good h')
  with assms have "h' = h" by simp
  with geo_good_result [OF good(4)] show ?thesis by auto
next
  case (bad h')
  with assms show ?thesis by auto
qed

lemma geo_sweep_mask:
  "geo_sweep c d grDEM inl ns doInterp sat_ht line g st = Inr st' \<Longrightarrow> mask st = Some m
     \<Longrightarrow> \<exists>m'. mask st' = Some m' \<and> normal_only c m m'"
proof (induction "nat (ns - g)" arbitrary: g st m)
  case 0
  then show ?case by (subst (asm) geo_sweep.simps) (simp add: normal_only_refl)
next
  case (Suc n)
  then have lt: "g < ns" and n: "n = nat (ns - (g + 1))" by simp_all
  with Suc.prems obtain st1 where
    b: "geo_body c d grDEM inl ns doInterp sat_ht line g st = Inr st1" and
    r: "geo_sweep c d grDEM inl ns doInterp sat_ht line (g + 1) st1 = Inr st'"
    by (subst (asm) geo_sweep.simps) (auto simp: ebind_eq_Inr)
  from geo_body_mask [OF b Suc.prems(2)] obtain m1 where
    m1: "mask st1 = Some m1" "normal_only c m m1" by blast
  from Suc.hyps(1) [OF n r m1(1)] m1(2) show ?case
    by (auto intro: normal_only_trans)
qed


lemma close_holes_normal:
  "close_holes c ns g (m, nl, nsh) = Inr (m', nl', nsh') \<Longrightarrow> normal_only c m m'"
  using close_holes_result [of c ns g m nl nsh m' nl' nsh'] by (auto simp: normal_only_def)

lemma geo_classify_cases:
  assumes "geo_classify c d grDEM inl ol ns doInterp (Some m0) line cnt = Inr st"
  obtains mh m1 hits1 st2 m2 m3 nl3 nsh3 where
    "geo_reset c ns 0 (m0, replicate (nat (ns * num_hits_required_for_layover)) 0) = Inr (m1, hits1)"
    "geo_sweep c d grDEM inl ns doInterp
       (meta_get_sat_height (meta d) line (numSamples d sdiv 2)) line 0
       \<lparr>out = ol, mask = Some m1, sr_hits = hits1, valid_data_yet = 0,
         max_height = mh, last_good_height = 0, max_valid_srX = - 1,
         max_valid_srX_height = 0, biggest_look = - 2,
         n_layover = fst cnt, n_shadow = snd cnt\<rparr> = Inr st2"
    "mask st2 = Some m2"
    "close_holes c ns 2 (m2, n_layover st2, n_shadow st2) = Inr (m3, nl3, nsh3)"
    "st = st2\<lparr>mask := Some m3, n_layover := nl3, n_shadow := nsh3\<rparr>"
proof -
  from assms obtain mh r st2 where
    r: "geo_reset c ns 0 (m0, replicate (nat (ns * num_hits_required_for_layover)) 0) = Inr r" and
    sw: "geo_sweep c d grDEM inl ns doInterp
       (meta_get_sat_height (meta d) line (numSamples d sdiv 2)) line 0
       \<lparr>out = ol, mask = Some (fst r), sr_hits = snd r, valid_data_yet = 0,
         max_height = mh, last_good_height = 0, max_valid_srX = - 1,
         max_valid_srX_height = 0, biggest_look = - 2,
         n_layover = fst cnt, n_shadow = snd cnt\<rparr> = Inr st2" and
    cl: "(case mask st2 of
         None \<Rightarrow> Inr st2
       | Some m \<Rightarrow>
           ebind (close_holes c ns 2 (m, n_layover st2, n_shadow st2)) (\<lambda>r.
             case r of (m', nl, nsh) \<Rightarrow>
               Inr (st2\<lparr>mask := Some m', n_layover := nl, n_shadow := nsh\<rparr>))) = Inr st"
    by (auto simp: geo_classify_def Let_def ebind_eq_Inr)
  from geo_sweep_mask [OF sw] obtain m2 where m2: "mask st2 = Some m2" by auto
  with cl obtain m3 nl3 nsh3 where
    "close_holes c ns 2 (m2, n_layover st2, n_shadow st2) = Inr (m3, nl3, nsh3)"
    "st = st2\<lparr>mask := Some m3, n_layover := nl3, n_shadow := nsh3\<rparr>"
    by (auto simp: ebind_eq_Inr)
  with r sw m2 show ?thesis
    by (cases r) (auto intro: that)
qed




lemma mark_right_result:
  "mark_right c ns i m = Inr m' \<Longrightarrow>
     length m' = length m
     \<and> (\<forall>k < length m. m' ! k = m ! k \<or> m' ! k = MASK_INVALID_DATA c)"
proof (induction "nat (ns - i)" arbitrary: i m)
  case 0
  then show ?case by (subst (asm) mark_right.simps) simp
next
  case (Suc n)
  then have lt: "i < ns" and n: "n = nat (ns - (i + 1))" by simp_all
  with Suc.prems obtain m1 where
    w: "wr m i (MASK_INVALID_DATA c) = Inr m1" and r: "mark_right c ns (i + 1) m1 = Inr m'"
    by (subst (asm) mark_right.simps) (auto simp: ebind_eq_Inr)
  from w have "length m1 = length m" "\<forall>k < length m. m1 ! k = m ! k \<or> m1 ! k = MASK_INVALID_DATA c"
    by (auto simp: wr_eq_Inr nth_list_update)
  with Suc.hyps(1) [OF n r] show ?case by (auto; metis)
qed

lemma mark_left_result:
  "mark_left c ol i m = Inr m' \<Longrightarrow>
     length m' = length m
     \<and> (\<forall>k < length m. m' ! k = m ! k \<or> m' ! k = MASK_INVALID_DATA c)"
proof (induction "nat (i + 1)" arbitrary: i m)
  case 0
  then show ?case by (subst (asm) mark_left.simps) simp
next
  case (Suc n)
  then have ge: "0 \<le> i" and n: "n = nat (i - 1 + 1)" by simp_all
  with Suc.prems obtain m1 where
    w: "m1 = m \<or> wr m i (MASK_INVALID_DATA c) = Inr m1" and r: "mark_left c ol (i - 1) m1 = Inr m'"
    by (subst (asm) mark_left.simps) (auto simp: ebind_eq_Inr split: if_splits)
  from w have "length m1 = length m" "\<forall>k < length m. m1 ! k = m ! k \<or> m1 ! k = MASK_INVALID_DATA c"
    by (auto simp: wr_eq_Inr nth_list_update)
  with Suc.hyps(1) [OF n r] show ?case by (auto; metis)
qed

lemma geo_invalid_result:
  assumes "geo_invalid c d ns st e m = Inr m'"
  shows "length m' = length m
     \<and> (\<forall>k < length m. m' ! k = m ! k \<or> m' ! k = MASK_INVALID_DATA c)"
proof -
  from assms obtain m1 where
    a: "m1 = m \<or> (\<exists>i. mark_right c ns i m = Inr m1)" and
    b: "m' = m1 \<or> (\<exists>i. mark_left c (e_out e) i m1 = Inr m')"
    by (auto simp: geo_invalid_def Let_def ebind_eq_Inr split: if_splits)
  from a have "length m1 = length m \<and> (\<forall>k < length m. m1 ! k = m ! k \<or> m1 ! k = MASK_INVALID_DATA c)"
    by (auto dest: mark_right_result)
  moreover from b
  have "length m' = length m1 \<and> (\<forall>k < length m1. m' ! k = m1 ! k \<or> m' ! k = MASK_INVALID_DATA c)"
    by (auto dest: mark_left_result)
  ultimately show ?thesis by (auto; metis)
qed

lemma geo_in_swath_track:
  assumes "geo_in_swath c d grDEM inl ns doInterp sat_ht line grX height srX st = Inr st'"
    and "mask st = Some m"
  shows "\<exists>st2. geo_track c d grDEM ns sat_ht line \<lfloor>srX\<rfloor> grX m st2 = Inr st'
     \<and> sr_hits st2 = sr_hits st \<and> n_layover st2 = n_layover st
     \<and> biggest_look st2 = biggest_look st \<and> n_shadow st2 = n_shadow st"
proof -
  from assms(1) obtain v ob where
    r: "(let st = st\<lparr>out := ob, valid_data_yet := 1\<rparr>;
           st = (if srX > max_valid_srX st
                 then st\<lparr>max_valid_srX := srX, max_valid_srX_height := height\<rparr>
                 else st)
       in case mask st of
            None \<Rightarrow> Inr st
          | Some m \<Rightarrow> geo_track c d grDEM ns sat_ht line \<lfloor>srX\<rfloor> grX m st) = Inr st'"
    unfolding geo_in_swath_def ebind_eq_Inr by blast
  show ?thesis
  proof (cases "srX > max_valid_srX st")
    case True
    with r assms(2)
    have "geo_track c d grDEM ns sat_ht line \<lfloor>srX\<rfloor> grX m
            (st\<lparr>out := ob, valid_data_yet := 1, max_valid_srX := srX,
                 max_valid_srX_height := height\<rparr>) = Inr st'"
      by (simp add: Let_def)
    then show ?thesis
      by (intro exI [of _ "st\<lparr>out := ob, valid_data_yet := 1, max_valid_srX := srX,
                 max_valid_srX_height := height\<rparr>"] conjI) simp_all
  next
    case False
    with r assms(2)
    have "geo_track c d grDEM ns sat_ht line \<lfloor>srX\<rfloor> grX m
            (st\<lparr>out := ob, valid_data_yet := 1\<rparr>) = Inr st'"
      by (simp add: Let_def)
    then show ?thesis
      by (intro exI [of _ "st\<lparr>out := ob, valid_data_yet := 1\<rparr>"] conjI) simp_all
  qed
qed

text \<open>
  C4. Shadow classification is part of the one left-to-right sweep and keeps a running
  maximum of the look value. At a valid pixel (good height, slant-range position inside
  \<open>[1, ns - 1)\<close>) of a line with a mask, with \<open>m1\<close> the mask as the layover step of the
  same pixel leaves it: the running maximum becomes the maximum of its old value and the
  look value of the pixel; if the look value is strictly less than the running maximum,
  the pixel is marked shadow and \<open>n_shadow\<close> incremented when the pixel is still normal
  (else mask and counter stay); otherwise the mask and the counter stay and the running
  maximum is the look value.
\<close>

theorem geo_body_shadow:
  assumes b: "geo_body c d grDEM inl ns doInterp sat_ht line grX st = Inr st'"
    and m: "mask st = Some m"
    and h: "rd grDEM grX = Inr h" "\<not> h < - 900" "h \<noteq> badDEMht c"
    and s: "dem_gr2sr d (real_of_int grX) h = Inr srX" "1 \<le> srX" "srX < real_of_int (ns - 1)"
  shows "\<exists>look hits1 m1 nl1.
       cur_look d grDEM sat_ht line grX = Inr look
     \<and> layover_step c ns \<lfloor>srX\<rfloor> grX (sr_hits st, m, n_layover st) = Inr (hits1, m1, nl1)
     \<and> biggest_look st' = max (biggest_look st) look
     \<and> (if look < biggest_look st
         then mask st' = Some (if m1 ! nat grX = MASK_NORMAL c
                               then m1[nat grX := MASK_SHADOW c] else m1)
            \<and> n_shadow st' = n_shadow st + (if m1 ! nat grX = MASK_NORMAL c then 1 else 0)
         else mask st' = Some m1 \<and> n_shadow st' = n_shadow st)"
proof -
  from b h have "geo_good c d grDEM inl ns doInterp sat_ht line grX h st = Inr st'"
    by (cases rule: geo_body_cases) auto
  with s have "geo_in_swath c d grDEM inl ns doInterp sat_ht line grX h srX
       (st\<lparr>max_height := (if h > max_height st then h else max_height st),
           last_good_height := h\<rparr>) = Inr st'"
    by (simp add: geo_good_def Let_def)
  from geo_in_swath_track [OF this, of m] m obtain st2 where
    t: "geo_track c d grDEM ns sat_ht line \<lfloor>srX\<rfloor> grX m st2 = Inr st'" and
    e: "sr_hits st2 = sr_hits st" "n_layover st2 = n_layover st"
      "biggest_look st2 = biggest_look st" "n_shadow st2 = n_shadow st"
    by auto
  from geo_track_result [OF t] e obtain hits1 m1 nl1 look b2 m2 nsh2 where
    l: "layover_step c ns \<lfloor>srX\<rfloor> grX (sr_hits st, m, n_layover st) = Inr (hits1, m1, nl1)" and
    cl: "cur_look d grDEM sat_ht line grX = Inr look" and
    sh: "shadow_step c grX look (biggest_look st, m1, n_shadow st) = Inr (b2, m2, nsh2)" and
    st': "st' = st2\<lparr>sr_hits := hits1, mask := Some m2, n_layover := nl1,
                 biggest_look := b2, n_shadow := nsh2\<rparr>"
    by auto
  from shadow_step_result [OF sh] st' have
    "biggest_look st' = max (biggest_look st) look
     \<and> (if look < biggest_look st
         then mask st' = Some (if m1 ! nat grX = MASK_NORMAL c
                               then m1[nat grX := MASK_SHADOW c] else m1)
            \<and> n_shadow st' = n_shadow st + (if m1 ! nat grX = MASK_NORMAL c then 1 else 0)
         else mask st' = Some m1 \<and> n_shadow st' = n_shadow st)"
    by (auto split: if_splits)
  with l cl show ?thesis by blast
qed

text \<open>
  The layover step of lines 338 to 361 is run by the same pass: at a valid pixel the
  hit table and \<open>n_layover\<close> of the new state are those that \<open>layover_step\<close> returns for
  slant-range pixel \<open>\<lfloor>srX\<rfloor>\<close>, and the shadow step that follows can change the mask at
  \<open>grX\<close> only.
\<close>

lemma geo_body_layover:
  assumes b: "geo_body c d grDEM inl ns doInterp sat_ht line grX st = Inr st'"
    and m: "mask st = Some m"
    and h: "rd grDEM grX = Inr h" "\<not> h < - 900" "h \<noteq> badDEMht c"
    and s: "dem_gr2sr d (real_of_int grX) h = Inr srX" "1 \<le> srX" "srX < real_of_int (ns - 1)"
  shows "\<exists>hits1 m1 nl1 m'.
       layover_step c ns \<lfloor>srX\<rfloor> grX (sr_hits st, m, n_layover st) = Inr (hits1, m1, nl1)
     \<and> sr_hits st' = hits1 \<and> n_layover st' = nl1 \<and> mask st' = Some m'
     \<and> length m' = length m1 \<and> (\<forall>k < length m1. k \<noteq> nat grX \<longrightarrow> m' ! k = m1 ! k)"
proof -
  from b h have "geo_good c d grDEM inl ns doInterp sat_ht line grX h st = Inr st'"
    by (cases rule: geo_body_cases) auto
  with s have "geo_in_swath c d grDEM inl ns doInterp sat_ht line grX h srX
       (st\<lparr>max_height := (if h > max_height st then h else max_height st),
           last_good_height := h\<rparr>) = Inr st'"
    by (simp add: geo_good_def Let_def)
  from geo_in_swath_track [OF this, of m] m obtain st2 where
    t: "geo_track c d grDEM ns sat_ht line \<lfloor>srX\<rfloor> grX m st2 = Inr st'" and
    e: "sr_hits st2 = sr_hits st" "n_layover st2 = n_layover st"
      "biggest_look st2 = biggest_look st" "n_shadow st2 = n_shadow st"
    by auto
  from geo_track_result [OF t] e obtain hits1 m1 nl1 look b2 m2 nsh2 where
    l: "layover_step c ns \<lfloor>srX\<rfloor> grX (sr_hits st, m, n_layover st) = Inr (hits1, m1, nl1)" and
    sh: "shadow_step c grX look (biggest_look st, m1, n_shadow st) = Inr (b2, m2, nsh2)" and
    st': "st' = st2\<lparr>sr_hits := hits1, mask := Some m2, n_layover := nl1,
                 biggest_look := b2, n_shadow := nsh2\<rparr>"
    by auto
  from shadow_step_result [OF sh]
  have "length m2 = length m1 \<and> (\<forall>k < length m1. k \<noteq> nat grX \<longrightarrow> m2 ! k = m1 ! k)"
    by (auto split: if_splits)
  with l st' show ?thesis by auto
qed

text \<open>
  At every other pixel (bad height, or position outside the swath) the pass leaves the
  mask, the running maximum and both counters as they are; over the whole sweep the
  running maximum and \<open>n_shadow\<close> never decrease.
\<close>

lemma geo_body_skip:
  assumes b: "geo_body c d grDEM inl ns doInterp sat_ht line grX st = Inr st'"
    and h: "rd grDEM grX = Inr h"
    and o: "h < - 900 \<or> h = badDEMht c
            \<or> (\<exists>srX. dem_gr2sr d (real_of_int grX) h = Inr srX
                  \<and> \<not> (1 \<le> srX \<and> srX < real_of_int (ns - 1)))"
  shows "mask st' = mask st \<and> biggest_look st' = biggest_look st
     \<and> n_shadow st' = n_shadow st \<and> n_layover st' = n_layover st"
  using b
proof (cases rule: geo_body_cases)
  case (bad h')
  from geo_bad_result [OF bad(3)] show ?thesis by auto
next
  case (good h')
  with h o obtain srX where
    s: "dem_gr2sr d (real_of_int grX) h' = Inr srX" "\<not> (1 \<le> srX \<and> srX < real_of_int (ns - 1))"
    by auto
  from good(4) s(1) have
    "(let st = st\<lparr>max_height := (if h' > max_height st then h' else max_height st),
                   last_good_height := h'\<rparr>
       in
       if srX \<ge> 1 \<and> srX < real_of_int (ns - 1)
       then geo_in_swath c d grDEM inl ns doInterp sat_ht line grX h' srX st
       else ebind (wr (out st) grX 0) (\<lambda>ob. Inr (st\<lparr>out := ob\<rparr>))) = Inr st'"
    by (simp add: geo_good_def)
  then have "\<exists>ob. st' = st\<lparr>max_height := (if h' > max_height st then h' else max_height st),
                   last_good_height := h', out := ob\<rparr>"
    unfolding Let_def if_not_P [OF s(2)] by (auto simp: ebind_eq_Inr)
  then show ?thesis by auto
qed

lemma geo_sweep_biggest_look:
  "geo_sweep c d grDEM inl ns doInterp sat_ht line g st = Inr st' \<Longrightarrow> mask st = Some m
     \<Longrightarrow> biggest_look st \<le> biggest_look st' \<and> n_shadow st \<le> n_shadow st'"
proof (induction "nat (ns - g)" arbitrary: g st m)
  case 0
  then show ?case by (subst (asm) geo_sweep.simps) simp
next
  case (Suc n)
  then have lt: "g < ns" and n: "n = nat (ns - (g + 1))" by simp_all
  with Suc.prems obtain st1 where
    b: "geo_body c d grDEM inl ns doInterp sat_ht line g st = Inr st1" and
    r: "geo_sweep c d grDEM inl ns doInterp sat_ht line (g + 1) st1 = Inr st'"
    by (subst (asm) geo_sweep.simps) (auto simp: ebind_eq_Inr)
  from geo_body_mask [OF b Suc.prems(2)] obtain m1 where m1: "mask st1 = Some m1" by blast
  from b obtain h where h: "rd grDEM g = Inr h"
    by (cases rule: geo_body_cases) auto
  have "biggest_look st \<le> biggest_look st1 \<and> n_shadow st \<le> n_shadow st1"
  proof (cases "h < - 900 \<or> h = badDEMht c
            \<or> (\<exists>srX. dem_gr2sr d (real_of_int g) h = Inr srX
                  \<and> \<not> (1 \<le> srX \<and> srX < real_of_int (ns - 1)))")
    case True
    from geo_body_skip [OF b h True] show ?thesis by simp
  next
    case False
    then have v: "\<not> h < - 900" "h \<noteq> badDEMht c" by auto
    from geo_body_valid_out [OF b h v] False obtain srX where
      "dem_gr2sr d (real_of_int g) h = Inr srX" "1 \<le> srX" "srX < real_of_int (ns - 1)"
      by auto
    from geo_body_shadow [OF b Suc.prems(2) h v this] show ?thesis
      by (auto split: if_splits)
  qed
  with Suc.hyps(1) [OF n r m1] show ?case by simp
qed


lemma geo_compensate_cases:
  assumes "geo_compensate c d grDEM inl ol ns doInterp mask0 line cnt = Inr (ol', mk', nl', nsh')"
  obtains st e where
    "geo_classify c d grDEM inl ol ns doInterp mask0 line cnt = Inr st"
    "geo_edge c d grDEM inl (ns - 1)
       \<lparr>e_out = out st, e_last_good_height = 0,
        min_valid_srX = real_of_int (ns - 1), min_valid_srX_height = 0\<rparr> = Inr e"
    "ol' = e_out e" "nl' = n_layover st" "nsh' = n_shadow st"
    "(case mask st of None \<Rightarrow> Inr None
      | Some m \<Rightarrow> ebind (geo_invalid c d ns st e m) (\<lambda>m'. Inr (Some m'))) = Inr mk'"
  using assms by (auto simp: geo_compensate_def ebind_eq_Inr)


text \<open>
  C8, as amended. A pixel whose mask value on entry is user-masked or invalid-data is
  left as it is by the reset (\<open>m1\<close> is the mask after it) and by the sweep and the pass
  that closes holes, which change only pixels whose value is normal (\<open>m\<close> is the mask
  after them); in the mask the function returns it holds its value on entry or
  invalid-data, which only the marks of the edge pass can give it.
\<close>

theorem geo_compensate_protected_pixel:
  assumes gc: "geo_compensate c d grDEM inl ol ns doInterp (Some m0) line cnt
                 = Inr (ol', mk', nl', nsh')"
    and un: "MASK_USER_MASK c \<noteq> MASK_NORMAL c" "MASK_INVALID_DATA c \<noteq> MASK_NORMAL c"
    and k: "k < length m0" "m0 ! k = MASK_USER_MASK c \<or> m0 ! k = MASK_INVALID_DATA c"
  shows "\<exists>m1 hits1 st m m'.
       geo_reset c ns 0 (m0, replicate (nat (ns * num_hits_required_for_layover)) 0)
         = Inr (m1, hits1)
     \<and> m1 ! k = m0 ! k
     \<and> geo_classify c d grDEM inl ol ns doInterp (Some m0) line cnt = Inr st
     \<and> mask st = Some m \<and> normal_only c m1 m \<and> m ! k = m0 ! k
     \<and> mk' = Some m' \<and> length m' = length m0
     \<and> (m' ! k = m0 ! k \<or> m' ! k = MASK_INVALID_DATA c)"
proof -
  from gc obtain st e where
    cl: "geo_classify c d grDEM inl ol ns doInterp (Some m0) line cnt = Inr st" and
    iv: "(case mask st of None \<Rightarrow> Inr None
      | Some m \<Rightarrow> ebind (geo_invalid c d ns st e m) (\<lambda>m'. Inr (Some m'))) = Inr mk'"
    by (rule geo_compensate_cases)
  from cl obtain mh m1 hits1 st2 m2 m3 nl3 nsh3 where
    rs: "geo_reset c ns 0 (m0, replicate (nat (ns * num_hits_required_for_layover)) 0)
           = Inr (m1, hits1)" and
    sw: "geo_sweep c d grDEM inl ns doInterp
       (meta_get_sat_height (meta d) line (numSamples d sdiv 2)) line 0
       \<lparr>out = ol, mask = Some m1, sr_hits = hits1, valid_data_yet = 0,
         max_height = mh, last_good_height = 0, max_valid_srX = - 1,
         max_valid_srX_height = 0, biggest_look = - 2,
         n_layover = fst cnt, n_shadow = snd cnt\<rparr> = Inr st2" and
    m2: "mask st2 = Some m2" and
    ch: "close_holes c ns 2 (m2, n_layover st2, n_shadow st2) = Inr (m3, nl3, nsh3)" and
    st: "st = st2\<lparr>mask := Some m3, n_layover := nl3, n_shadow := nsh3\<rparr>"
    by (rule geo_classify_cases)
  from geo_reset_result [OF rs] k have l1: "length m1 = length m0" and k1: "m1 ! k = m0 ! k"
    by auto
  from geo_sweep_mask [OF sw, of m1] m2 have "normal_only c m1 m2" by simp
  with close_holes_normal [OF ch] have n13: "normal_only c m1 m3"
    by (rule normal_only_trans [rotated])
  with k k1 un l1 have l3: "length m3 = length m0" and k3: "m3 ! k = m0 ! k"
    by (auto simp: normal_only_def)
  from st have ms: "mask st = Some m3" by simp
  with iv obtain m' where iv': "geo_invalid c d ns st e m3 = Inr m'" and mk': "mk' = Some m'"
    by (auto simp: ebind_eq_Inr)
  from geo_invalid_result [OF iv'] k l3 k3
  have "length m' = length m0" "m' ! k = m0 ! k \<or> m' ! k = MASK_INVALID_DATA c"
    by auto
  with rs k1 cl ms n13 k3 mk' show ?thesis by blast
qed

subsection \<open>geo\_compensate on concrete lines\<close>

lemma sqrt_36: "sqrt 36 = 6"
  by (rule real_sqrt_unique) simp_all

lemmas geo_defs = geo_compensate_def geo_classify_def geo_body_def geo_good_def geo_bad_def
  geo_in_swath_def geo_track_def layover_step_def shadow_step_def cur_look_def sample_in_def
  edge_body_def geo_invalid_def both_sides_def geo_reset.simps hits_init.simps hit_loop.simps
  mark_loop.simps geo_sweep.simps close_holes.simps geo_edge.simps mark_right.simps
  mark_left.simps SR2GR_def dem_gr2sr_def rd_def wr_def c_int_def badDEMht_def
  num_hits_required_for_layover_def Let_def sqrt_36

lemma flat4_line:
  "geo_compensate ex_consts flat4 [0, 0, 0, 0] [10, 11, 12, 13] [0, 0, 0, 0] 4 1
     (Some [1, 1, 1, 2]) 0 (0, 0) = Inr ([0, 11, 12, 12], Some [5, 1, 5, 5], 0, 0)"
  by (simp add: geo_defs ex_defs)

text \<open>
  A line without a single good height, with a mask: no pixel reaches the swath,
  \<open>max_valid_srX\<close> is still \<open>-1\<close> at line 477 and \<open>SR2GR\<close> reads \<open>heightShiftSR[-1]\<close>.
  Without a mask that call is not made and the same line is processed to the end.
\<close>

lemma flat4_bad_line:
  "geo_compensate ex_consts flat4 [- 9999, - 9999, - 9999, - 9999] [10, 11, 12, 13] [0, 0, 0, 0] 4 1
     (Some [1, 1, 1, 1]) 0 (0, 0) = Inl OutOfBounds
   \<and> geo_compensate ex_consts flat4 [- 9999, - 9999, - 9999, - 9999] [10, 11, 12, 13]
        [0, 0, 0, 0] 4 1 None 0 (0, 0) = Inr ([10, 11, 0, 12], None, 0, 0)"
  by (simp add: geo_defs ex_defs)

lemma lay6_line:
  "geo_compensate ex_consts lay6 [0, 0, 0, 0, 0, 0] [10, 11, 12, 13, 14, 15] [0, 0, 0, 0, 0, 0] 6 1
     (Some [1, 2, 1, 1, 1, 1]) 0 (0, 0)
   = Inr ([0, 56/5, 57/5, 58/5, 14, 14], Some [5, 2, 4, 4, 5, 5], 2, 0)"
  by (simp add: geo_defs ex_defs)

text \<open>
  A single peak of 7 metres at ground pixel 3 under the geometry \<open>peak6\<close>: the peak is
  the third pixel in slant-range pixel 1, three pixels are counted as layover and the two
  pixels behind the peak as shadow (the marks of the edge pass then cover pixels 4 and 5).
  The flat line under the same geometry has neither.
\<close>

lemma peak6_line:
  "geo_compensate ex_consts peak6 [0, 0, 0, 7, 0, 0] [10, 11, 12, 13, 14, 15] [0, 0, 0, 0, 0, 0] 6 1
     (Some [1, 1, 1, 1, 1, 1]) 0 (0, 0)
   = Inr ([0, 11, 23/2, 89/8, 27/2, 27/2], Some [5, 4, 4, 4, 5, 5], 3, 2)"
  by (simp add: geo_defs ex_defs)

lemma peak6_flat_line:
  "geo_compensate ex_consts peak6 [0, 0, 0, 0, 0, 0] [10, 11, 12, 13, 14, 15] [0, 0, 0, 0, 0, 0] 6 1
     (Some [1, 1, 1, 1, 1, 1]) 0 (0, 0)
   = Inr ([0, 11, 23/2, 25/2, 27/2, 27/2], Some [5, 1, 1, 1, 5, 5], 0, 0)"
  by (simp add: geo_defs ex_defs)

text \<open>
  The first four passes of the sweep over the line with the peak lead from \<open>peak_st0\<close> to
  \<open>peak_st3\<close>; the fifth, at the pixel behind the peak, finds a look value below the
  running maximum and marks the pixel as shadow.
\<close>

lemma peak6_prefix:
  "ebind (geo_body ex_consts peak6 [0, 0, 0, 7, 0, 0] [10, 11, 12, 13, 14, 15] 6 1 2 0 0 peak_st0)
     (\<lambda>s. ebind (geo_body ex_consts peak6 [0, 0, 0, 7, 0, 0] [10, 11, 12, 13, 14, 15] 6 1 2 0 1 s)
     (\<lambda>s. ebind (geo_body ex_consts peak6 [0, 0, 0, 7, 0, 0] [10, 11, 12, 13, 14, 15] 6 1 2 0 2 s)
     (\<lambda>s. geo_body ex_consts peak6 [0, 0, 0, 7, 0, 0] [10, 11, 12, 13, 14, 15] 6 1 2 0 3 s)))
   = Inr peak_st3"
  by (simp add: geo_defs ex_defs peak_st0_def peak_st3_def)

lemma peak6_body4:
  "geo_body ex_consts peak6 [0, 0, 0, 7, 0, 0] [10, 11, 12, 13, 14, 15] 6 1 2 0 4 peak_st3
   = Inr (peak_st3\<lparr>out := [0, 11, 23/2, 89/8, 27/2, 0], mask := Some [1, 4, 4, 4, 3, 1],
            sr_hits := [- 1, 1, - 1, 4, - 1, - 1, - 1, 2, - 1, - 1, - 1, - 1],
            last_good_height := 0, max_valid_srX := 7/2, n_shadow := 1\<rparr>)"
  by (simp add: geo_defs ex_defs peak_st3_def)



text \<open>
  A height of exactly \<open>-900\<close> at pixel 0: the sweep writes 0 there (position 0 is outside
  \<open>[1, 3)\<close>), the edge pass takes the height for a bad one and copies the input sample.
\<close>

lemma flat4_minus_900:
  "geo_compensate ex_consts flat4 [- 900, 0, 0, 0] [10, 11, 12, 13] [0, 0, 0, 0] 4 1 None 0 (0, 0)
     = Inr ([10, 11, 12, 12], None, 0, 0)"
  by (simp add: geo_defs ex_defs)

subsection \<open>Counterexamples and witnesses for geo\_compensate\<close>



theorem geo_body_shadow_witness:
  "geo_body ex_consts peak6 [0, 0, 0, 7, 0, 0] [10, 11, 12, 13, 14, 15] 6 1 2 0 4 peak_st3
   = Inr (peak_st3\<lparr>out := [0, 11, 23/2, 89/8, 27/2, 0], mask := Some [1, 4, 4, 4, 3, 1],
            sr_hits := [- 1, 1, - 1, 4, - 1, - 1, - 1, 2, - 1, - 1, - 1, - 1],
            last_good_height := 0, max_valid_srX := 7/2, n_shadow := 1\<rparr>)
   \<and> mask peak_st3 = Some [1, 4, 4, 4, 1, 1]
   \<and> rd [0, 0, 0, 7, 0, 0 :: real] 4 = Inr 0
   \<and> dem_gr2sr peak6 (real_of_int 4) 0 = Inr (7/2)
   \<and> cur_look peak6 [0, 0, 0, 7, 0, 0] 2 0 4 = Inr (- 1)
   \<and> biggest_look peak_st3 = 1 \<and> n_shadow peak_st3 = 0"
proof -
  have h: "mask peak_st3 = Some [1, 4, 4, 4, 1, 1]" "rd [0, 0, 0, 7, 0, 0 :: real] 4 = Inr 0"
    "\<not> (0 :: real) < - 900" "0 \<noteq> badDEMht ex_consts"
    "dem_gr2sr peak6 (real_of_int 4) 0 = Inr (7/2)" "(1 :: real) \<le> 7/2"
    "(7/2 :: real) < real_of_int (6 - 1)"
    by (simp_all add: geo_defs ex_defs peak_st3_def)
  have l: "cur_look peak6 [0, 0, 0, 7, 0, 0] 2 0 4 = Inr (- 1)"
    "biggest_look peak_st3 = 1" "n_shadow peak_st3 = 0"
    by (simp_all add: geo_defs ex_defs peak_st3_def)
  from geo_body_shadow [OF peak6_body4 h] peak6_body4 h l show ?thesis by simp
qed


text \<open>
  C8. The claim: a pixel that is user-masked or invalid-data on entry is never
  reclassified within the line. In the line below pixel 3 is user-masked on entry; the
  greatest slant-range position in use maps back to ground pixel 2, the marks of the edge
  pass run from there to the end of the line, and pixel 3 comes out as invalid-data.
\<close>

theorem edge_marks_overwrite_user_mask:
  "geo_compensate ex_consts flat4 [0, 0, 0, 0] [10, 11, 12, 13] [0, 0, 0, 0] 4 1
     (Some [1, 1, 1, 2]) 0 (0, 0) = Inr ([0, 11, 12, 12], Some [5, 1, 5, 5], 0, 0)
   \<and> [1, 1, 1, 2 :: real] ! 3 = MASK_USER_MASK ex_consts
   \<and> [5, 1, 5, 5 :: real] ! 3 = MASK_INVALID_DATA ex_consts
   \<and> MASK_INVALID_DATA ex_consts \<noteq> MASK_USER_MASK ex_consts"
  using flat4_line by (simp add: ex_consts_def)

theorem geo_compensate_protected_pixel_witness:
  "geo_compensate ex_consts lay6 [0, 0, 0, 0, 0, 0] [10, 11, 12, 13, 14, 15]
        [0, 0, 0, 0, 0, 0] 6 1 (Some [1, 2, 1, 1, 1, 1]) 0 (0, 0)
      = Inr ([0, 56/5, 57/5, 58/5, 14, 14], Some [5, 2, 4, 4, 5, 5], 2, 0)
   \<and> MASK_USER_MASK ex_consts \<noteq> MASK_NORMAL ex_consts
   \<and> MASK_INVALID_DATA ex_consts \<noteq> MASK_NORMAL ex_consts
   \<and> (1 :: nat) < length [1, 2, 1, 1, 1, 1 :: real]
   \<and> [1, 2, 1, 1, 1, 1 :: real] ! 1 = MASK_USER_MASK ex_consts
   \<and> [5, 2, 4, 4, 5, 5 :: real] ! 1 = [1, 2, 1, 1, 1, 1] ! 1"
proof -
  have h: "MASK_USER_MASK ex_consts \<noteq> MASK_NORMAL ex_consts"
    "MASK_INVALID_DATA ex_consts \<noteq> MASK_NORMAL ex_consts"
    "(1 :: nat) < length [1, 2, 1, 1, 1, 1 :: real]"
    "[1, 2, 1, 1, 1, 1 :: real] ! 1 = MASK_USER_MASK ex_consts
       \<or> [1, 2, 1, 1, 1, 1 :: real] ! 1 = MASK_INVALID_DATA ex_consts"
    by (simp_all add: ex_consts_def)
  from geo_compensate_protected_pixel [OF lay6_line h] lay6_line h show ?thesis
    by (simp add: ex_consts_def)
qed

subsection \<open>radio\_compensate\<close>

declare radio_loop.simps [simp del]

lemma rtc_switch_5_error:
  "rtc_switch d line x 5 inout dx dy dz cosAng = Inl e \<Longrightarrow> e = OutOfBounds"
  by (auto simp: rtc_switch_def rd_def wr_def split: if_splits)

lemma rtc_switch_frame:
  "rtc_switch d line x form inout dx dy dz cosAng = Inr io \<Longrightarrow>
     \<exists>v. 0 \<le> x \<and> x < int (length inout) \<and> io = inout[nat x := v]"
  by (auto simp: rtc_switch_def bad_rtc_def Let_def ebind_eq_Inr rd_eq_Inr wr_eq_Inr
      split: if_splits)

lemma radio_body_frame:
  assumes "radio_body c d grDEM grDEMprev line form maskl x inout = Inr io" and "1 \<le> x"
  shows "length io = length inout \<and> io ! 0 = inout ! 0"
  using assms
  by (auto simp: radio_body_def ebind_eq_Inr Let_def split: if_splits dest!: rtc_switch_frame)

lemma radio_loop_frame:
  "radio_loop c d grDEM grDEMprev ns line form maskl x inout = Inr io \<Longrightarrow> 1 \<le> x
     \<Longrightarrow> length io = length inout \<and> io ! 0 = inout ! 0"
proof (induction c d grDEM grDEMprev ns line form maskl x inout rule: radio_loop.induct)
  case (1 c d grDEM grDEMprev ns line form maskl x inout)
  show ?case
  proof (cases "x < ns")
    case True
    with "1.prems" obtain io1 where
      b: "radio_body c d grDEM grDEMprev line form maskl x inout = Inr io1" and
      l: "radio_loop c d grDEM grDEMprev ns line form maskl (x + 1) io1 = Inr io"
      by (subst (asm) radio_loop.simps) (auto simp: ebind_eq_Inr)
    from "1.IH" [OF True l] "1.prems" have "length io = length io1 \<and> io ! 0 = io1 ! 0"
      by simp
    with radio_body_frame [OF b] "1.prems" show ?thesis by simp
  next
    case False
    with "1.prems" show ?thesis
      by (subst (asm) radio_loop.simps) simp
  qed
qed

lemma radio_body_5_error:
  "radio_body c d grDEM grDEMprev line 5 maskl x inout = Inl e \<Longrightarrow> e = OutOfBounds"
  by (auto simp: radio_body_def any_bad_height_def ebind_def rd_def wr_def Let_def
      dest: rtc_switch_5_error split: if_splits sum.splits)

lemma radio_loop_5_error:
  "radio_loop c d grDEM grDEMprev ns line form maskl x inout = Inl e \<Longrightarrow> form = 5
     \<Longrightarrow> e = OutOfBounds"
proof (induction c d grDEM grDEMprev ns line form maskl x inout rule: radio_loop.induct)
  case (1 c d grDEM grDEMprev ns line form maskl x inout)
  show ?case
  proof (cases "x < ns")
    case True
    show ?thesis
    proof (cases "radio_body c d grDEM grDEMprev line form maskl x inout")
      case (Inl e')
      with True "1.prems" show ?thesis
        by (subst (asm) radio_loop.simps) (auto dest: radio_body_5_error)
    next
      case (Inr io1)
      with True "1.prems"
      have "radio_loop c d grDEM grDEMprev ns line form maskl (x + 1) io1 = Inl e"
        by (subst (asm) radio_loop.simps) simp
      from "1.IH" [OF True this] "1.prems" show ?thesis by simp
    qed
  next
    case False
    with "1.prems" show ?thesis
      by (subst (asm) radio_loop.simps) simp
  qed
qed

lemma radio_body_5_ok:
  assumes "1 \<le> x" "x < ns" "ns \<le> int (length inout)" "ns \<le> int (length maskl)"
    "ns \<le> int (length grDEM)" "ns \<le> int (length grDEMprev)"
    "ns \<le> int (length (sinIncidAng d))" "ns \<le> int (length (cosIncidAng d))"
  shows "\<exists>io. radio_body c d grDEM grDEMprev line 5 maskl x inout = Inr io"
  using assms
  by (auto simp: radio_body_def any_bad_height_def rtc_switch_def rd_def wr_def Let_def)

lemma radio_loop_5_ok:
  "1 \<le> x \<Longrightarrow> form = 5 \<Longrightarrow> ns \<le> int (length inout) \<Longrightarrow> ns \<le> int (length maskl)
    \<Longrightarrow> ns \<le> int (length grDEM) \<Longrightarrow> ns \<le> int (length grDEMprev)
    \<Longrightarrow> ns \<le> int (length (sinIncidAng d)) \<Longrightarrow> ns \<le> int (length (cosIncidAng d))
    \<Longrightarrow> \<exists>io. radio_loop c d grDEM grDEMprev ns line form maskl x inout = Inr io"
proof (induction c d grDEM grDEMprev ns line form maskl x inout rule: radio_loop.induct)
  case (1 c d grDEM grDEMprev ns line form maskl x inout)
  show ?case
  proof (cases "x < ns")
    case True
    from radio_body_5_ok [OF "1.prems"(1) True "1.prems"(3-8)] "1.prems"(2)
    obtain io1 where b: "radio_body c d grDEM grDEMprev line form maskl x inout = Inr io1"
      by auto
    from radio_body_frame [OF b "1.prems"(1)] "1.prems" have "ns \<le> int (length io1)" by simp
    from "1.IH" [OF True _ _ this "1.prems"(4-8)] "1.prems"
    obtain io where "radio_loop c d grDEM grDEMprev ns line form maskl (x + 1) io1 = Inr io"
      by auto
    with True b show ?thesis
      by (subst radio_loop.simps) simp
  next
    case False
    then show ?thesis by (subst radio_loop.simps) simp
  qed
qed

lemma sqrt_16_25: "sqrt (16 / 25) = 4 / 5"
  by (rule real_sqrt_unique) (simp_all add: power2_eq_square)

lemma sqrt_49_625: "sqrt (49 / 625) = 7 / 25"
  by (rule real_sqrt_unique) (simp_all add: power2_eq_square)

lemmas radio_defs = radio_compensate_def radio_loop.simps radio_body_def any_bad_height_def
  bad_dem_height_def rtc_switch_def rd_def wr_def badDEMht_def Let_def sqrt_16_25 sqrt_49_625

text \<open>
  A line of slope 3/4 from its second sample on, under the geometry \<open>slope4\<close>: whatever
  nonzero form is asked for, sample 1 is scaled by formula 5 (20 becomes 7), the other
  samples have a bad height beside them or are first in the line.
\<close>

lemma radio_slope4:
  "form \<in> {3, 5, 6} \<Longrightarrow>
     radio_compensate ex_consts slope4 [- 9999, 0, 3/4, - 9999] [0, 0, 3/4, 0] [20, 20, 20, 20] 4 1
       form [1, 1, 1, 1] = Inr [20, 20, 7, 20]"
  by (auto simp: radio_defs ex_defs)

text \<open>
  C1. The claim: every call of \<open>radio_compensate\<close> with a nonzero form other than 5 ends
  in the fatal error of \<open>bad_rtc\<close> and none completes normally. The code overwrites the
  form with 5 before its loop (line 541), so the call with form 3 below completes
  normally, having applied formula 5.
\<close>

theorem radio_compensate_form_3_completes:
  "radio_compensate ex_consts slope4 [- 9999, 0, 3/4, - 9999] [0, 0, 3/4, 0] [20, 20, 20, 20] 4 1
     3 [1, 1, 1, 1] = Inr [20, 20, 7, 20]
   \<and> radio_compensate ex_consts slope4 [- 9999, 0, 3/4, - 9999] [0, 0, 3/4, 0] [20, 20, 20, 20] 4 1
     3 [1, 1, 1, 1] \<noteq> Inl (UntestedFormula 3)"
  using radio_slope4 [of 3] by simp

text \<open>
  C1, as amended: a call with a nonzero form computes what the call with form 5
  computes; it never ends in the error of \<open>bad_rtc\<close> nor in the error of the default
  case, so no legacy formula runs; and when the six arrays it reads hold \<open>ns\<close> samples it
  completes normally.
\<close>

theorem radio_compensate_overrides_form:
  "form \<noteq> 0 \<Longrightarrow>
     radio_compensate c d grDEM grDEMprev inout ns line form maskl
       = radio_compensate c d grDEM grDEMprev inout ns line 5 maskl
     \<and> (\<forall>k. radio_compensate c d grDEM grDEMprev inout ns line form maskl
              \<noteq> Inl (UntestedFormula k))
     \<and> (\<forall>k. radio_compensate c d grDEM grDEMprev inout ns line form maskl \<noteq> Inl (BadFormula k))
     \<and> (ns \<le> int (length inout) \<and> ns \<le> int (length maskl) \<and> ns \<le> int (length grDEM)
          \<and> ns \<le> int (length grDEMprev) \<and> ns \<le> int (length (sinIncidAng d))
          \<and> ns \<le> int (length (cosIncidAng d))
        \<longrightarrow> (\<exists>io. radio_compensate c d grDEM grDEMprev inout ns line form maskl = Inr io))"
proof -
  assume f: "form \<noteq> 0"
  have e: "\<And>e. radio_compensate c d grDEM grDEMprev inout ns line form maskl = Inl e
             \<Longrightarrow> e = OutOfBounds"
    using f by (auto simp: radio_compensate_def Let_def dest: radio_loop_5_error)
  have ok: "ns \<le> int (length inout) \<and> ns \<le> int (length maskl) \<and> ns \<le> int (length grDEM)
          \<and> ns \<le> int (length grDEMprev) \<and> ns \<le> int (length (sinIncidAng d))
          \<and> ns \<le> int (length (cosIncidAng d))
        \<longrightarrow> (\<exists>io. radio_compensate c d grDEM grDEMprev inout ns line form maskl = Inr io)"
    using f radio_loop_5_ok [of 1 5 ns inout maskl grDEM grDEMprev d c line]
    by (auto simp: radio_compensate_def Let_def)
  show ?thesis using f e ok by (auto simp: radio_compensate_def Let_def)
qed

theorem radio_compensate_overrides_form_witness:
  "(6::int) \<noteq> 0
   \<and> radio_compensate ex_consts slope4 [- 9999, 0, 3/4, - 9999] [0, 0, 3/4, 0] [20, 20, 20, 20] 4 1
        6 [1, 1, 1, 1]
      = radio_compensate ex_consts slope4 [- 9999, 0, 3/4, - 9999] [0, 0, 3/4, 0] [20, 20, 20, 20]
          4 1 5 [1, 1, 1, 1]
   \<and> radio_compensate ex_consts slope4 [- 9999, 0, 3/4, - 9999] [0, 0, 3/4, 0] [20, 20, 20, 20] 4 1
        6 [1, 1, 1, 1] \<noteq> Inl (UntestedFormula 6)
   \<and> (\<exists>io. radio_compensate ex_consts slope4 [- 9999, 0, 3/4, - 9999] [0, 0, 3/4, 0]
              [20, 20, 20, 20] 4 1 6 [1, 1, 1, 1] = Inr io)"
proof -
  have p: "(6::int) \<noteq> 0" by simp
  have len: "4 \<le> int (length [20, 20, 20, 20 :: real]) \<and> 4 \<le> int (length [1, 1, 1, 1 :: real])
      \<and> 4 \<le> int (length [- 9999, 0, 3/4, - 9999 :: real])
      \<and> 4 \<le> int (length [0, 0, 3/4, 0 :: real])
      \<and> 4 \<le> int (length (sinIncidAng slope4)) \<and> 4 \<le> int (length (cosIncidAng slope4))"
    by (simp add: ex_defs)
  from radio_compensate_overrides_form [OF p, of ex_consts slope4 "[- 9999, 0, 3/4, - 9999]"
      "[0, 0, 3/4, 0]" "[20, 20, 20, 20]" 4 1 "[1, 1, 1, 1]"] len p
  show ?thesis by blast
qed

text \<open>
  C10. \<open>radio_compensate\<close> never modifies sample 0 of its line: the loop starts at
  \<open>x = 1\<close>, so the value at sample 0 (and the length of the line) is that of the input,
  and with form 0 the whole line is returned as it came.
\<close>

theorem radio_compensate_keeps_sample_0:
  "radio_compensate c d grDEM grDEMprev inout ns line form maskl = Inr io
     \<Longrightarrow> length io = length inout \<and> io ! 0 = inout ! 0 \<and> (form = 0 \<longrightarrow> io = inout)"
  by (auto simp: radio_compensate_def Let_def dest: radio_loop_frame split: if_splits)

theorem radio_compensate_keeps_sample_0_witness:
  "radio_compensate ex_consts slope4 [- 9999, 0, 3/4, - 9999] [0, 0, 3/4, 0] [20, 20, 20, 20] 4 1
     5 [1, 1, 1, 1] = Inr [20, 20, 7, 20]
   \<and> length [20, 20, 7, 20 :: real] = length [20, 20, 20, 20 :: real]
   \<and> [20, 20, 7, 20 :: real] ! 0 = [20, 20, 20, 20] ! 0"
proof -
  have h: "radio_compensate ex_consts slope4 [- 9999, 0, 3/4, - 9999] [0, 0, 3/4, 0]
             [20, 20, 20, 20] 4 1 5 [1, 1, 1, 1] = Inr [20, 20, 7, 20]"
    using radio_slope4 [of 5] by simp
  from radio_compensate_keeps_sample_0 [OF h] h show ?thesis by simp
qed

end
